theory Spec2Isabelle
  imports Main "HOL-Library.Finite_Map" "HOL-Library.Word"
begin

section \<open>JavaScript values\<close>

text \<open>
  The values that travel through the server are JSON values: request bodies parsed by
  \<^verbatim>\<open>express.json()\<close>, document data returned by the document store, and response
  bodies. An object is a finite map from property names to values, so two objects are
  equal exactly when they have the same properties with the same values. Numbers are
  carried as integers: the handlers never compute with them, they only test them for
  truthiness. \<^verbatim>\<open>undefined\<close> is the absence of a value (\<open>None\<close>).
\<close>

datatype json =
    JNull
  | JBool bool
  | JNum int
  | JStr string
  | JArr "json list"
  | JObj "(string, json) fmap"

type_synonym obj = "(string, json) fmap"

text \<open>JavaScript truthiness, as tested by \<^verbatim>\<open>!x\<close> and \<^verbatim>\<open>x || y\<close>.\<close>

fun truthy :: "json \<Rightarrow> bool" where
  "truthy JNull = False"
| "truthy (JBool b) = b"
| "truthy (JNum n) = (n \<noteq> 0)"
| "truthy (JStr s) = (s \<noteq> [])"
| "truthy (JArr xs) = True"
| "truthy (JObj m) = True"

text \<open>\<^verbatim>\<open>x || []\<close> where \<open>x\<close> is a property read that may be \<^verbatim>\<open>undefined\<close>.\<close>

definition or_empty_array :: "json option \<Rightarrow> json" where
  "or_empty_array x = (case x of None \<Rightarrow> JArr [] | Some v \<Rightarrow> if truthy v then v else JArr [])"

text \<open>Decimal rendering of a non-negative integer, as \<^verbatim>\<open>String(n)\<close> gives it.\<close>

fun string_of_nat :: "nat \<Rightarrow> string" where
  "string_of_nat n =
     (if n < 10 then [''0123456789'' ! n]
      else string_of_nat (n div 10) @ [''0123456789'' ! (n mod 10)])"

declare string_of_nat.simps [simp del]

text \<open>
  The own enumerable properties that object spread \<^verbatim>\<open>{...v}\<close> copies: the properties
  of an object, the indices of an array or string, nothing for the other values.
\<close>

fun own_props :: "json \<Rightarrow> obj" where
  "own_props (JObj m) = m"
| "own_props (JArr xs) = fmap_of_list (zip (map string_of_nat [0..<length xs]) xs)"
| "own_props (JStr s) = fmap_of_list (zip (map string_of_nat [0..<length s]) (map (\<lambda>c. JStr [c]) s))"
| "own_props _ = fmempty"

text \<open>
  The errors that reach a handler: a plain \<^verbatim>\<open>Error\<close>, a \<^verbatim>\<open>TypeError\<close> thrown
  by the JavaScript runtime, a rejection of the document store, a failure of the file
  system, and the upload library's own \<^verbatim>\<open>MulterError\<close>, which carries a code.
\<close>

datatype multer_code = LIMIT_FILE_SIZE | LIMIT_FIELD_VALUE | LIMIT_UNEXPECTED_FILE

datatype js_error =
    Error string
  | TypeError string
  | StoreError string
  | FsError string
  | MulterError multer_code

fun message :: "js_error \<Rightarrow> string" where
  "message (Error m) = m"
| "message (TypeError m) = m"
| "message (StoreError m) = m"
| "message (FsError m) = m"
| "message (MulterError LIMIT_FILE_SIZE) = ''File too large''"
| "message (MulterError LIMIT_FIELD_VALUE) = ''Field value too long''"
| "message (MulterError LIMIT_UNEXPECTED_FILE) = ''Unexpected field''"

text \<open>\<^verbatim>\<open>err instanceof multer.MulterError\<close>.\<close>

fun is_MulterError :: "js_error \<Rightarrow> bool" where
  "is_MulterError (MulterError c) = True"
| "is_MulterError _ = False"

text \<open>
  The property read \<^verbatim>\<open>condition.id\<close>: a \<^verbatim>\<open>TypeError\<close> on \<^verbatim>\<open>null\<close>, the property
  of an object, \<^verbatim>\<open>undefined\<close> on every other value (numbers, booleans, strings and
  arrays have no property of that name).
\<close>

fun get_id :: "json \<Rightarrow> js_error + json option" where
  "get_id JNull = Inl (TypeError ''Cannot read properties of null (reading 'id')'')"
| "get_id (JObj m) = Inr (fmlookup m ''id'')"
| "get_id _ = Inr None"

section \<open>Slash-separated paths\<close>

text \<open>\<^verbatim>\<open>s.split('/')\<close> and \<^verbatim>\<open>segments.join('/')\<close>.\<close>

fun split_slash :: "string \<Rightarrow> string list" where
  "split_slash [] = [] # []"
| "split_slash (c # cs) =
     (if c = CHR ''/'' then [] # split_slash cs
      else (case split_slash cs of [] \<Rightarrow> [c] # [] | s # ss \<Rightarrow> (c # s) # ss))"

fun join_slash :: "string list \<Rightarrow> string" where
  "join_slash [] = []"
| "join_slash [s] = s"
| "join_slash (s # t # ss) = s @ CHR ''/'' # join_slash (t # ss)"

text \<open>\<^verbatim>\<open>s.indexOf('//') >= 0\<close>.\<close>

fun has_double_slash :: "string \<Rightarrow> bool" where
  "has_double_slash (a # b # cs) =
     ((a = CHR ''/'' \<and> b = CHR ''/'') \<or> has_double_slash (b # cs))"
| "has_double_slash cs = False"

text \<open>A string between double quotes, as error messages show it.\<close>

definition quoted :: "string \<Rightarrow> string" where
  "quoted s = CHR 0x22 # s @ [CHR 0x22]"

section \<open>The document store\<close>

text \<open>
  \<^verbatim>\<open>db.collection('vehicles')\<close> is a remote collection of documents, each addressed
  by its path below the collection. The store is an external collaborator; a call to it
  either resolves or rejects, and which of the two happens is an input of the request
  (\<open>store_io\<close>). \<^verbatim>\<open>update\<close> merges the given fields into an existing document and
  leaves its other fields alone; it rejects when the document does not exist.
\<close>

type_synonym firestore = "string \<rightharpoonup> obj"

text \<open>
  \<^verbatim>\<open>db.collection('vehicles').doc(documentPath)\<close>, the store client's own check of the
  path, made before anything is sent: the path must be a non-empty string without
  \<open>//\<close>; a slash at either end is ignored; and together with the collection the
  segments must address a document, so their number must be odd. An id without a slash
  addresses the document of that name; \<open>a/b\<close> addresses a collection and is refused.
  The result is the path of the document below the collection.
\<close>

definition doc :: "string \<Rightarrow> js_error + string" where
  "doc documentPath =
     (if documentPath = []
      then Inl (Error (''Value for argument '' @ quoted ''documentPath'' @
             '' is not a valid resource path. Path must be a non-empty string.''))
      else if has_double_slash documentPath
      then Inl (Error (''Value for argument '' @ quoted ''documentPath'' @
             '' is not a valid resource path. Paths must not contain //.''))
      else
        let segments = filter (\<lambda>segment. segment \<noteq> []) (split_slash documentPath)
        in if even (length segments)
           then Inl (Error (''Value for argument '' @ quoted ''documentPath'' @
                  '' must point to a document, but was '' @ quoted documentPath @
                  ''. Your path does not contain an even number of components.''))
           else Inr (join_slash segments))"

record store_io =
  get_rejects :: "string option"
  update_rejects :: "string option"

definition doc_get :: "store_io \<Rightarrow> firestore \<Rightarrow> string \<Rightarrow> js_error + obj option" where
  "doc_get io db key =
     (case get_rejects io of Some m \<Rightarrow> Inl (StoreError m) | None \<Rightarrow> Inr (db key))"

definition doc_update :: "store_io \<Rightarrow> firestore \<Rightarrow> string \<Rightarrow> obj \<Rightarrow> js_error + firestore" where
  "doc_update io db key changes =
     (case update_rejects io of
        Some m \<Rightarrow> Inl (StoreError m)
      | None \<Rightarrow>
          (case db key of
             None \<Rightarrow> Inl (StoreError ''NOT_FOUND'')
           | Some d \<Rightarrow> Inr (db(key \<mapsto> d ++\<^sub>f changes))))"

section \<open>Responses\<close>

record response =
  status :: nat
  body :: json

definition respond :: "nat \<Rightarrow> (string \<times> json) list \<Rightarrow> response" where
  "respond code props = \<lparr>status = code, body = JObj (fmap_of_list props)\<rparr>"

section \<open>Condition endpoints\<close>

text \<open>
  \<^verbatim>\<open>POST /api/vehicles/:vehicleId/conditions\<close>. The first argument is the value that
  \<^verbatim>\<open>uuidv4()\<close> returns for this request; \<open>vehicleId\<close> is the path parameter as the
  router decodes it, so it may hold a slash. The record \<open>conditionData\<close> is
  \<^verbatim>\<open>{ id: uuidv4(), ...req.body }\<close>: the generated \<open>id\<close> first, the properties of
  the body written over it. \<^verbatim>\<open>conditions.push\<close> is a \<^verbatim>\<open>TypeError\<close> when the
  \<open>conditions\<close> field holds a truthy value that is not an array.
\<close>

definition conditionData :: "string \<Rightarrow> json \<Rightarrow> obj" where
  "conditionData uuid reqBody = fmupd ''id'' (JStr uuid) fmempty ++\<^sub>f own_props reqBody"

definition add_condition ::
  "string \<Rightarrow> store_io \<Rightarrow> firestore \<Rightarrow> string \<Rightarrow> json \<Rightarrow> response \<times> firestore" where
  "add_condition uuid io db vehicleId reqBody =
     (case doc vehicleId of
        Inl e \<Rightarrow>
          (respond 500 [(''error'', JStr ''Error adding condition''),
                        (''details'', JStr (message e))], db)
      | Inr vehicleRef \<Rightarrow>
          (case doc_get io db vehicleRef of
             Inl e \<Rightarrow>
               (respond 500 [(''error'', JStr ''Error adding condition''),
                             (''details'', JStr (message e))], db)
           | Inr None \<Rightarrow> (respond 404 [(''error'', JStr ''Vehicle not found'')], db)
           | Inr (Some vehicleData) \<Rightarrow>
               (case or_empty_array (fmlookup vehicleData ''conditions'') of
                  JArr conditions \<Rightarrow>
                    (case doc_update io db vehicleRef
                            (fmupd ''conditions''
                               (JArr (conditions @ [JObj (conditionData uuid reqBody)])) fmempty) of
                       Inl e \<Rightarrow>
                         (respond 500 [(''error'', JStr ''Error adding condition''),
                                       (''details'', JStr (message e))], db)
                     | Inr db' \<Rightarrow>
                         (\<lparr>status = 201, body = JObj (conditionData uuid reqBody)\<rparr>, db'))
                | _ \<Rightarrow>
                    (respond 500 [(''error'', JStr ''Error adding condition''),
                                  (''details'', JStr ''conditions.push is not a function'')],
                     db))))"

text \<open>
  \<^verbatim>\<open>(vehicleData.conditions || []).filter(condition => condition.id !== conditionId)\<close>:
  an element is kept unless its \<open>id\<close> is the string \<open>conditionId\<close>; reading \<open>id\<close>
  of a \<^verbatim>\<open>null\<close> element throws and abandons the filter.
\<close>

fun filter_conditions :: "string \<Rightarrow> json list \<Rightarrow> js_error + json list" where
  "filter_conditions conditionId [] = Inr []"
| "filter_conditions conditionId (condition # rest) =
     (case get_id condition of
        Inl e \<Rightarrow> Inl e
      | Inr i \<Rightarrow>
          (case filter_conditions conditionId rest of
             Inl e \<Rightarrow> Inl e
           | Inr kept \<Rightarrow>
               Inr (if i \<noteq> Some (JStr conditionId) then condition # kept else kept)))"

text \<open>\<^verbatim>\<open>DELETE /api/vehicles/:vehicleId/conditions/:conditionId\<close>.\<close>

definition delete_condition ::
  "store_io \<Rightarrow> firestore \<Rightarrow> string \<Rightarrow> string \<Rightarrow> response \<times> firestore" where
  "delete_condition io db vehicleId conditionId =
     (case doc vehicleId of
        Inl e \<Rightarrow>
          (respond 500 [(''error'', JStr ''Error deleting condition''),
                        (''details'', JStr (message e))], db)
      | Inr vehicleRef \<Rightarrow>
          (case doc_get io db vehicleRef of
             Inl e \<Rightarrow>
               (respond 500 [(''error'', JStr ''Error deleting condition''),
                             (''details'', JStr (message e))], db)
           | Inr None \<Rightarrow> (respond 404 [(''error'', JStr ''Vehicle not found'')], db)
           | Inr (Some vehicleData) \<Rightarrow>
               (case or_empty_array (fmlookup vehicleData ''conditions'') of
                  JArr existing \<Rightarrow>
                    (case filter_conditions conditionId existing of
                       Inl e \<Rightarrow>
                         (respond 500 [(''error'', JStr ''Error deleting condition''),
                                       (''details'', JStr (message e))], db)
                     | Inr conditions \<Rightarrow>
                         (case doc_update io db vehicleRef
                                 (fmupd ''conditions'' (JArr conditions) fmempty) of
                            Inl e \<Rightarrow>
                              (respond 500 [(''error'', JStr ''Error deleting condition''),
                                            (''details'', JStr (message e))], db)
                          | Inr db' \<Rightarrow>
                              (respond 200
                                 [(''message'', JStr ''Condition deleted successfully'')],
                               db')))
                | _ \<Rightarrow>
                    (respond 500 [(''error'', JStr ''Error deleting condition''),
                                  (''details'',
                                   JStr ''(vehicleData.conditions || []).filter is not a function'')],
                     db))))"

text \<open>
  The \<open>conditions\<close> sequence a handler works on, \<^verbatim>\<open>vehicleData.conditions || []\<close>:
  the array in the field, the empty sequence when the field is absent or falsy, and
  nothing when the field holds a truthy value that is not an array.
\<close>

definition conditions_of :: "obj \<Rightarrow> json list option" where
  "conditions_of vehicleData =
     (case or_empty_array (fmlookup vehicleData ''conditions'') of
        JArr cs \<Rightarrow> Some cs
      | _ \<Rightarrow> None)"

text \<open>The value of one field of one document of the store, if both exist.\<close>

definition field_of :: "firestore \<Rightarrow> string \<Rightarrow> string \<Rightarrow> json option" where
  "field_of db key name = (case db key of None \<Rightarrow> None | Some d \<Rightarrow> fmlookup d name)"

text \<open>The value of one property of a JSON object; nothing on any other value.\<close>

fun prop_of :: "json \<Rightarrow> string \<Rightarrow> json option" where
  "prop_of (JObj m) name = fmlookup m name"
| "prop_of _ name = None"

text \<open>\<open>has_id conditionId c\<close>: the record \<open>c\<close> carries the string \<open>conditionId\<close> as its \<open>id\<close>.\<close>

definition has_id :: "string \<Rightarrow> json \<Rightarrow> bool" where
  "has_id conditionId c = (get_id c = Inr (Some (JStr conditionId)))"

text \<open>
  Modelled from the spec: \<^verbatim>\<open>uuidv4\<close> comes from the package \<open>uuid\<close>, which is not
  part of the repository. The spec says of it that it "generates a fresh unique id".
  The generator is therefore any sequence of strings that never repeats; its n-th call
  returns the n-th element. Which strings they are is left open.
\<close>

typedef uuid_source = "{f :: nat \<Rightarrow> string. inj f}"
  morphisms nth_uuid Abs_uuid_source
proof
  show "(\<lambda>n. replicate n CHR ''u'') \<in> {f :: nat \<Rightarrow> string. inj f}"
    by (auto intro!: injI dest: arg_cong [where f = length])
qed

setup_lifting type_definition_uuid_source

text \<open>
  The server across requests: the document store and the number of calls made to
  \<^verbatim>\<open>uuidv4\<close> so far. Each add request makes one call, whatever becomes of it.
\<close>

record server =
  store :: firestore
  uuid_calls :: nat

definition post_condition ::
  "uuid_source \<Rightarrow> store_io \<Rightarrow> server \<Rightarrow> string \<Rightarrow> json \<Rightarrow> response \<times> server" where
  "post_condition src io s vehicleId reqBody =
     (case add_condition (nth_uuid src (uuid_calls s)) io (store s) vehicleId reqBody of
        (res, db') \<Rightarrow> (res, \<lparr>store = db', uuid_calls = Suc (uuid_calls s)\<rparr>))"

text \<open>
  No record of the sequence has an \<open>id\<close> that the generator has yet to return, from
  its n-th call on.
\<close>

definition unissued_absent :: "uuid_source \<Rightarrow> nat \<Rightarrow> json list \<Rightarrow> bool" where
  "unissued_absent src n cs = (\<forall>c \<in> set cs. \<forall>k \<ge> n. \<not> has_id (nth_uuid src k) c)"

section \<open>Vehicle read endpoint\<close>

text \<open>
  \<^verbatim>\<open>GET /api/vehicles/:vehicleId\<close> answers
  \<^verbatim>\<open>{ vehicleId, ...vehicleData, conditions: vehicleData.conditions || [] }\<close>:
  the path parameter first, the document's fields written over it, the \<open>conditions\<close>
  property written last. It never writes to the store.
\<close>

definition get_vehicle :: "store_io \<Rightarrow> firestore \<Rightarrow> string \<Rightarrow> response" where
  "get_vehicle io db vehicleId =
     (case doc vehicleId of
        Inl e \<Rightarrow>
          respond 500 [(''error'', JStr ''Error getting vehicle data''),
                       (''details'', JStr (message e))]
      | Inr vehicleRef \<Rightarrow>
          (case doc_get io db vehicleRef of
             Inl e \<Rightarrow>
               respond 500 [(''error'', JStr ''Error getting vehicle data''),
                            (''details'', JStr (message e))]
           | Inr None \<Rightarrow> respond 404 [(''error'', JStr ''Vehicle not found'')]
           | Inr (Some vehicleData) \<Rightarrow>
               \<lparr>status = 200,
                body = JObj (fmupd ''conditions''
                               (or_empty_array (fmlookup vehicleData ''conditions''))
                               (fmupd ''vehicleId'' (JStr vehicleId) fmempty ++\<^sub>f vehicleData))\<rparr>))"

section \<open>Paths\<close>

text \<open>
  \<^verbatim>\<open>path.join\<close> of Node.js on a POSIX system: the non-empty arguments are joined
  with \<open>/\<close> and the result is normalised. Normalisation works segment by segment:
  empty segments and \<open>.\<close> are dropped, \<open>..\<close> removes the segment before it (and is
  dropped at the root of an absolute path), a trailing \<open>/\<close> is kept.
\<close>

fun normalizeString :: "bool \<Rightarrow> string list \<Rightarrow> string list \<Rightarrow> string list" where
  "normalizeString allowAboveRoot res [] = res"
| "normalizeString allowAboveRoot res (seg # segs) =
     (if seg = [] \<or> seg = ''.'' then normalizeString allowAboveRoot res segs
      else if seg = ''..'' then
        (if res \<noteq> [] \<and> last res \<noteq> ''..'' then normalizeString allowAboveRoot (butlast res) segs
         else if allowAboveRoot then normalizeString allowAboveRoot (res @ [''..'']) segs
         else normalizeString allowAboveRoot res segs)
      else normalizeString allowAboveRoot (res @ [seg]) segs)"

definition normalize :: "string \<Rightarrow> string" where
  "normalize p =
     (if p = [] then ''.''
      else
        let isAbsolute = (hd p = CHR ''/'');
            trailingSeparator = (last p = CHR ''/'');
            q = join_slash (normalizeString (\<not> isAbsolute) [] (split_slash p))
        in if q = [] then (if isAbsolute then ''/'' else if trailingSeparator then ''./'' else ''.'')
           else (if isAbsolute then ''/'' else []) @ q @ (if trailingSeparator then ''/'' else []))"

definition path_join :: "string list \<Rightarrow> string" where
  "path_join args =
     (let joined = join_slash (filter (\<lambda>arg. arg \<noteq> []) args)
      in if joined = [] then ''.'' else normalize joined)"

section \<open>Multipart form data\<close>

text \<open>
  A multipart request is a sequence of parts in the order the client sent them: a text
  field (name, value) or a file (field name, file name as the upload library reports
  it in \<^verbatim>\<open>file.originalname\<close>, content). The library collects the text fields in
  \<^verbatim>\<open>req.body\<close>; a field name that occurs again turns the value into an array.
  (Field names in bracket notation, which build nested values, are not modelled.)
\<close>

type_synonym bytes = "8 word list"

datatype part =
    Text string string
  | File string string bytes

datatype request =
    NotMultipart
  | Multipart "part list"

datatype form_value =
    FStr string
  | FArr "string list"

type_synonym form = "string \<rightharpoonup> form_value"

definition appendField :: "form \<Rightarrow> string \<Rightarrow> string \<Rightarrow> form" where
  "appendField b name v =
     b(name \<mapsto> (case b name of
                   None \<Rightarrow> FStr v
                 | Some (FStr u) \<Rightarrow> FArr [u, v]
                 | Some (FArr us) \<Rightarrow> FArr (us @ [v])))"

text \<open>Truthiness of \<^verbatim>\<open>req.body.name\<close>: absent and the empty string are falsy.\<close>

fun form_truthy :: "form_value option \<Rightarrow> bool" where
  "form_truthy None = False"
| "form_truthy (Some (FStr s)) = (s \<noteq> [])"
| "form_truthy (Some (FArr vs)) = True"

text \<open>
  \<^verbatim>\<open>path.join\<close> on values of \<^verbatim>\<open>req.body\<close>: the arguments are checked from left to
  right, and the first one that is not a string throws.
\<close>

fun strings_of :: "form_value option list \<Rightarrow> js_error + string list" where
  "strings_of [] = Inr []"
| "strings_of (Some (FStr s) # vs) =
     (case strings_of vs of Inl e \<Rightarrow> Inl e | Inr args \<Rightarrow> Inr (s # args))"
| "strings_of (Some (FArr us) # vs) =
     Inl (TypeError (''The '' @ quoted ''path'' @
            '' argument must be of type string. Received an instance of Array''))"
| "strings_of (None # vs) =
     Inl (TypeError (''The '' @ quoted ''path'' @
            '' argument must be of type string. Received undefined''))"

definition path_join_values :: "form_value option list \<Rightarrow> js_error + string" where
  "path_join_values vs =
     (case strings_of vs of
        Inl e \<Rightarrow> Inl e
      | Inr args \<Rightarrow> Inr (path_join args))"

section \<open>The file system\<close>

text \<open>
  The disk holds directories and files, both addressed by their path. What the clock
  shows, where the program lives (\<^verbatim>\<open>__dirname\<close>) and whether an operation of the file
  system fails are inputs of the request (\<open>upload_env\<close>).
\<close>

record filesystem =
  dirs :: "string set"
  files :: "string \<rightharpoonup> bytes"

record upload_env =
  dirname :: string
  now :: nat
  mkdir_throws :: "string option"
  write_fails :: "string option"
  unlink_fails :: bool

text \<open>The path itself and every directory above it, below the root.\<close>

definition ancestors :: "string \<Rightarrow> string list" where
  "ancestors p =
     (let segs = filter (\<lambda>seg. seg \<noteq> []) (split_slash p)
      in map (\<lambda>k. CHR ''/'' # join_slash (take k segs)) [1..<Suc (length segs)])"

text \<open>\<^verbatim>\<open>fs.mkdirSync(p, { recursive: true })\<close>.\<close>

definition mkdirSync :: "upload_env \<Rightarrow> filesystem \<Rightarrow> string \<Rightarrow> js_error + filesystem" where
  "mkdirSync env fs p =
     (case mkdir_throws env of
        Some m \<Rightarrow> Inl (FsError m)
      | None \<Rightarrow> Inr (fs\<lparr>dirs := dirs fs \<union> set (ancestors p)\<rparr>))"

definition write_file :: "filesystem \<Rightarrow> string \<Rightarrow> bytes \<Rightarrow> filesystem" where
  "write_file fs p content = fs\<lparr>files := (files fs)(p \<mapsto> content)\<rparr>"

definition unlink :: "upload_env \<Rightarrow> filesystem \<Rightarrow> string \<Rightarrow> filesystem" where
  "unlink env fs p = (if unlink_fails env then fs else fs\<lparr>files := (files fs)(p := None)\<rparr>)"

section \<open>Upload\<close>

text \<open>
  \<^verbatim>\<open>storage.destination\<close>: reads \<open>vehicleId\<close> and \<open>type\<close> from the fields collected
  so far, refuses when one of them is falsy, otherwise creates the directory
  \<^verbatim>\<open>path.join(__dirname, '../public/documents', vehicleId, type)\<close> and passes it on.
  Whatever is thrown inside is caught and passed to the callback as the error.
\<close>

definition storage_destination ::
  "upload_env \<Rightarrow> filesystem \<Rightarrow> form \<Rightarrow> js_error + string \<times> filesystem" where
  "storage_destination env fs reqBody =
     (let vehicleId = reqBody ''vehicleId'';
          type = reqBody ''type''
      in if \<not> form_truthy vehicleId \<or> \<not> form_truthy type
         then Inl (Error ''Missing vehicleId or type'')
         else
           (case path_join_values
                   [Some (FStr (dirname env)), Some (FStr ''../public/documents''), vehicleId, type] of
              Inl e \<Rightarrow> Inl e
            | Inr uploadPath \<Rightarrow>
                (case mkdirSync env fs uploadPath of
                   Inl e \<Rightarrow> Inl e
                 | Inr fs' \<Rightarrow> Inr (uploadPath, fs'))))"

text \<open>\<^verbatim>\<open>storage.filename\<close>: \<^verbatim>\<open>`${Date.now()}-${file.originalname}`\<close>.\<close>

definition storage_filename :: "upload_env \<Rightarrow> string \<Rightarrow> string" where
  "storage_filename env originalname = string_of_nat (now env) @ ''-'' @ originalname"

text \<open>
  \<^verbatim>\<open>limits: { fileSize: 10 * 1024 * 1024 }\<close>; for the value of a text field the upload
  library's own default stays in force, 1 MiB.
\<close>

definition fileSize :: nat where
  "fileSize = 10 * 1024 * 1024"

definition fieldSize :: nat where
  "fieldSize = 1024 * 1024"

text \<open>What the upload library leaves in \<^verbatim>\<open>req.file\<close> and \<^verbatim>\<open>req.body\<close>.\<close>

record uploaded_file =
  originalname :: string
  destination :: string
  filename :: string
  path :: string
  bytesWritten :: nat

record upload_req =
  req_body :: form
  req_file :: "uploaded_file option"

text \<open>
  When the library gives up it removes the file it has already stored for this request
  and hands the error to the handler.
\<close>

definition abort ::
  "upload_env \<Rightarrow> js_error \<Rightarrow> upload_req \<Rightarrow> filesystem \<Rightarrow> js_error option \<times> upload_req \<times> filesystem" where
  "abort env e req fs =
     (Some e, req, (case req_file req of None \<Rightarrow> fs | Some f \<Rightarrow> unlink env fs (path f)))"

text \<open>
  \<^verbatim>\<open>upload.single('file')\<close> with the disk storage above: the library's contract
  (multer 1.4.5-lts.1), part by part. A text field is added to \<^verbatim>\<open>req.body\<close>, unless
  its value reaches the \<open>fieldSize\<close> limit, which is the \<^verbatim>\<open>MulterError\<close>
  \<open>LIMIT_FIELD_VALUE\<close>. A file part without a file name is skipped. A file part under
  another field name, or a second file, is a \<^verbatim>\<open>MulterError\<close>. Otherwise the
  destination is asked for with the fields collected \<^emph>\<open>so far\<close>, then the file name, and
  the content is streamed to \<^verbatim>\<open>path.join(destination, filename)\<close>. When the content
  reaches the \<open>fileSize\<close> limit the rest is cut off; the library then removes what it
  has written and fails with the \<^verbatim>\<open>MulterError\<close> \<open>LIMIT_FILE_SIZE\<close>.
\<close>

fun multer_single ::
  "upload_env \<Rightarrow> part list \<Rightarrow> upload_req \<Rightarrow> filesystem \<Rightarrow>
     js_error option \<times> upload_req \<times> filesystem" where
  "multer_single env [] req fs = (None, req, fs)"
| "multer_single env (Text name v # parts) req fs =
     (if fieldSize \<le> length v then abort env (MulterError LIMIT_FIELD_VALUE) req fs
      else multer_single env parts (req\<lparr>req_body := appendField (req_body req) name v\<rparr>) fs)"
| "multer_single env (File name original content # parts) req fs =
     (if original = [] then multer_single env parts req fs
      else if name \<noteq> ''file'' \<or> req_file req \<noteq> None
      then abort env (MulterError LIMIT_UNEXPECTED_FILE) req fs
      else
        (case storage_destination env fs (req_body req) of
           Inl e \<Rightarrow> abort env e req fs
         | Inr (dest, fs1) \<Rightarrow>
             (let fileName = storage_filename env original;
                  finalPath = path_join [dest, fileName]
              in case write_fails env of
                   Some m \<Rightarrow> abort env (FsError m) req fs1
                 | None \<Rightarrow>
                     if fileSize \<le> length content
                     then (Some (MulterError LIMIT_FILE_SIZE), req,
                           unlink env (write_file fs1 finalPath (take fileSize content)) finalPath)
                     else
                       multer_single env parts
                         (req\<lparr>req_file := Some \<lparr>originalname = original, destination = dest,
                                                 filename = fileName, path = finalPath,
                                                 bytesWritten = length content\<rparr>\<rparr>)
                         (write_file fs1 finalPath content))))"

text \<open>
  The handler's callback, \<^verbatim>\<open>function(err) { ... }\<close> of \<^verbatim>\<open>POST /api/upload\<close>:
  a \<^verbatim>\<open>MulterError\<close> is answered with 400, any other error with 500; without an
  error the file and the two fields are checked and the public path is
  \<^verbatim>\<open>path.join('/documents', vehicleId, type, req.file.filename)\<close>.
\<close>

definition upload_callback :: "js_error option \<Rightarrow> upload_req \<Rightarrow> response" where
  "upload_callback err req =
     (case err of
        Some e \<Rightarrow>
          if is_MulterError e
          then respond 400 [(''message'', JStr ''File upload error''), (''error'', JStr (message e))]
          else respond 500 [(''message'', JStr ''Upload error''), (''error'', JStr (message e))]
      | None \<Rightarrow>
          (case req_file req of
             None \<Rightarrow>
               respond 400 [(''message'', JStr ''No file uploaded''),
                            (''error'', JStr ''File is required'')]
           | Some file \<Rightarrow>
               (let vehicleId = req_body req ''vehicleId'';
                    type = req_body req ''type''
                in if \<not> form_truthy vehicleId \<or> \<not> form_truthy type
                   then respond 400 [(''message'', JStr ''Missing required fields''),
                                     (''error'', JStr ''vehicleId and type are required'')]
                   else
                     (case path_join_values
                             [Some (FStr ''/documents''), vehicleId, type,
                              Some (FStr (filename file))] of
                        Inl e \<Rightarrow>
                          respond 500 [(''message'', JStr ''Error processing upload''),
                                       (''error'', JStr (message e))]
                      | Inr relativePath \<Rightarrow>
                          respond 200 [(''message'', JStr ''File uploaded successfully''),
                                       (''path'', JStr relativePath)]))))"

text \<open>
  \<^verbatim>\<open>POST /api/upload\<close>. A request that is not multipart passes through the upload
  library untouched, so it reaches the callback without a file.
\<close>

definition upload :: "upload_env \<Rightarrow> filesystem \<Rightarrow> request \<Rightarrow> response \<times> filesystem" where
  "upload env fs request =
     (case request of
        NotMultipart \<Rightarrow> (upload_callback None \<lparr>req_body = Map.empty, req_file = None\<rparr>, fs)
      | Multipart parts \<Rightarrow>
          (case multer_single env parts \<lparr>req_body = Map.empty, req_file = None\<rparr> fs of
             (err, req, fs') \<Rightarrow> (upload_callback err req, fs')))"

text \<open>
  The text fields of a multipart request, as \<^verbatim>\<open>req.body\<close> holds them at the end of
  a run that did not fail.
\<close>

fun form_fields :: "form \<Rightarrow> part list \<Rightarrow> form" where
  "form_fields b [] = b"
| "form_fields b (Text name v # parts) = form_fields (appendField b name v) parts"
| "form_fields b (File name original content # parts) = form_fields b parts"

text \<open>The first file part that carries a file name: field name, file name, content.\<close>

fun first_file :: "part list \<Rightarrow> (string \<times> string \<times> bytes) option" where
  "first_file [] = None"
| "first_file (Text name v # parts) = first_file parts"
| "first_file (File name original content # parts) =
     (if original = [] then first_file parts else Some (name, original, content))"

text \<open>A path segment that normalisation leaves alone.\<close>

definition plain_segment :: "string \<Rightarrow> bool" where
  "plain_segment s = (s \<noteq> [] \<and> s \<noteq> ''.'' \<and> s \<noteq> ''..'' \<and> CHR ''/'' \<notin> set s)"

text \<open>A path all of whose segments are plain, such as \<open>v1\<close> or \<open>fleet/v1\<close>.\<close>

definition plain_path :: "string \<Rightarrow> bool" where
  "plain_path s = list_all plain_segment (split_slash s)"

section \<open>Example inputs\<close>

definition reliable :: store_io where
  "reliable = \<lparr>get_rejects = None, update_rejects = None\<rparr>"

definition example_db :: firestore where
  "example_db = [''v1'' \<mapsto> fmap_of_list [(''make'', JStr ''Fiat'')]]"

definition example_conditions :: "json list" where
  "example_conditions =
     [JObj (fmap_of_list [(''id'', JStr ''a''), (''note'', JStr ''scratch'')]),
      JObj (fmap_of_list [(''id'', JStr ''b''), (''note'', JStr ''dent'')])]"

definition example_db_conditions :: firestore where
  "example_db_conditions =
     [''v1'' \<mapsto> fmap_of_list [(''make'', JStr ''Fiat''), (''conditions'', JArr example_conditions)]]"

definition twin_first :: json where
  "twin_first = JObj (fmap_of_list [(''id'', JStr ''x''), (''note'', JStr ''first'')])"

definition twin_second :: json where
  "twin_second = JObj (fmap_of_list [(''id'', JStr ''x''), (''note'', JStr ''second'')])"

text \<open>The store after two add requests whose bodies both bring the \<open>id\<close> \<open>x\<close>.\<close>

definition example_db_twins :: firestore where
  "example_db_twins =
     snd (add_condition ''u2'' reliable
            (snd (add_condition ''u1'' reliable example_db ''v1'' twin_first)) ''v1'' twin_second)"

text \<open>A generator for the examples: \<open>uuid-\<close>, \<open>uuid-x\<close>, \<open>uuid-xx\<close>, and so on.\<close>

lift_definition example_uuids :: uuid_source is "\<lambda>n. ''uuid-'' @ replicate n CHR ''x''"
  by (auto intro!: injI dest: arg_cong [where f = length])

definition example_server :: server where
  "example_server = \<lparr>store = example_db_conditions, uuid_calls = 0\<rparr>"

definition example_env :: upload_env where
  "example_env = \<lparr>dirname = ''/srv/app/src'', now = 1700000000000, mkdir_throws = None,
     write_fails = None, unlink_fails = False\<rparr>"

definition empty_disk :: filesystem where
  "empty_disk = \<lparr>dirs = {}, files = Map.empty\<rparr>"

definition example_upload :: request where
  "example_upload = Multipart [Text ''vehicleId'' ''v1'', Text ''type'' ''insurance'',
     File ''file'' ''card.pdf'' [1, 2, 3]]"

section \<open>Properties of the condition endpoints\<close>

subsection \<open>What a handler does when the store answers\<close>

lemma doc_update_ok:
  "update_rejects io = None \<Longrightarrow> db key = Some d \<Longrightarrow>
   doc_update io db key changes = Inr (db(key \<mapsto> d ++\<^sub>f changes))"
  by (simp add: doc_update_def)

lemma conditions_of_cases:
  "conditions_of d = Some cs \<longleftrightarrow> or_empty_array (fmlookup d ''conditions'') = JArr cs"
  by (auto simp: conditions_of_def split: json.splits)

lemma conditions_of_written [simp]:
  "conditions_of (fmupd ''conditions'' (JArr cs) d) = Some cs"
  by (simp add: conditions_of_def or_empty_array_def)

lemma add_condition_ok:
  assumes "doc vehicleId = Inr ref" "get_rejects io = None" "update_rejects io = None"
    "db ref = Some d" "conditions_of d = Some cs"
  shows "add_condition uuid io db vehicleId reqBody =
     (\<lparr>status = 201, body = JObj (conditionData uuid reqBody)\<rparr>,
      db(ref \<mapsto> fmupd ''conditions'' (JArr (cs @ [JObj (conditionData uuid reqBody)])) d))"
  using assms
  by (simp add: add_condition_def doc_get_def doc_update_ok conditions_of_cases)

lemma add_condition_201:
  assumes "status (fst (add_condition uuid io db vehicleId reqBody)) = 201"
  shows "\<exists>ref d cs. doc vehicleId = Inr ref \<and> get_rejects io = None \<and>
     update_rejects io = None \<and> db ref = Some d \<and> conditions_of d = Some cs"
  using assms
  by (auto simp: add_condition_def doc_get_def doc_update_def respond_def conditions_of_def
      split: option.splits sum.splits json.splits)

lemma filter_conditions_no_null:
  "JNull \<notin> set cs \<Longrightarrow>
   filter_conditions conditionId cs = Inr (filter (\<lambda>c. \<not> has_id conditionId c) cs)"
proof (induction cs)
  case Nil
  then show ?case by simp
next
  case (Cons c cs)
  then obtain i where "get_id c = Inr i"
    by (cases c) auto
  with Cons show ?case by (simp add: has_id_def)
qed

lemma delete_condition_ok:
  assumes "doc vehicleId = Inr ref" "get_rejects io = None" "update_rejects io = None"
    "db ref = Some d" "conditions_of d = Some cs" "JNull \<notin> set cs"
  shows "delete_condition io db vehicleId conditionId =
     (respond 200 [(''message'', JStr ''Condition deleted successfully'')],
      db(ref \<mapsto> fmupd ''conditions'' (JArr (filter (\<lambda>c. \<not> has_id conditionId c) cs)) d))"
  using assms
  by (simp add: delete_condition_def doc_get_def doc_update_ok conditions_of_cases
      filter_conditions_no_null)

lemma add_condition_frame:
  "snd (add_condition uuid io db vehicleId reqBody) = db \<or>
   (\<exists>ref d v. doc vehicleId = Inr ref \<and> db ref = Some d \<and>
      snd (add_condition uuid io db vehicleId reqBody) =
        db(ref \<mapsto> fmupd ''conditions'' v d))"
  by (auto simp: add_condition_def doc_get_def doc_update_def
      split: option.splits sum.splits json.splits)

lemma delete_condition_frame:
  "snd (delete_condition io db vehicleId conditionId) = db \<or>
   (\<exists>ref d v. doc vehicleId = Inr ref \<and> db ref = Some d \<and>
      snd (delete_condition io db vehicleId conditionId) =
        db(ref \<mapsto> fmupd ''conditions'' v d))"
  by (auto simp: delete_condition_def doc_get_def doc_update_def
      split: option.splits sum.splits json.splits)

lemma add_condition_no_document:
  assumes "\<And>ref. doc vehicleId = Inr ref \<Longrightarrow> db ref = None"
  shows "snd (add_condition uuid io db vehicleId reqBody) = db"
  using assms add_condition_frame [of uuid io db vehicleId reqBody] by auto

lemma conditionData_other:
  "name \<noteq> ''id'' \<Longrightarrow> fmlookup (conditionData uuid (JObj b)) name = fmlookup b name"
  by (auto simp: conditionData_def fmlookup_dom_iff)

lemma conditionData_id:
  "fmlookup (conditionData uuid (JObj b)) ''id'' =
     Some (case fmlookup b ''id'' of None \<Rightarrow> JStr uuid | Some v \<Rightarrow> v)"
  by (auto simp: conditionData_def fmlookup_dom_iff split: option.splits)

lemma doc_plain_id: "doc ''v1'' = Inr ''v1''" "doc ''v2'' = Inr ''v2''"
  by (simp_all add: doc_def)

lemmas example_eval = reliable_def example_db_def example_db_conditions_def
  example_conditions_def add_condition_def delete_condition_def get_vehicle_def doc_get_def
  doc_update_def or_empty_array_def conditionData_def respond_def field_of_def has_id_def
  conditions_of_def doc_plain_id

subsection \<open>Adding to a vehicle that does not exist\<close>

text \<open>
  Claim C4, as the code has it. When no document exists under \<open>vehicleId\<close>, adding a
  condition writes nothing: the store is left exactly as it was. When moreover
  \<open>vehicleId\<close> is a path that addresses a document (as every id without a slash does)
  and the store answers the read, the answer is 404 \<open>Vehicle not found\<close>.
\<close>

theorem add_condition_missing_vehicle:
  assumes "\<forall>ref. doc vehicleId = Inr ref \<longrightarrow> db ref = None"
  shows "snd (add_condition uuid io db vehicleId reqBody) = db \<and>
         (\<forall>ref. doc vehicleId = Inr ref \<and> get_rejects io = None \<longrightarrow>
            fst (add_condition uuid io db vehicleId reqBody) =
              respond 404 [(''error'', JStr ''Vehicle not found'')])"
proof -
  have "snd (add_condition uuid io db vehicleId reqBody) = db"
    using assms by (intro add_condition_no_document) simp
  moreover have "fst (add_condition uuid io db vehicleId reqBody) =
      respond 404 [(''error'', JStr ''Vehicle not found'')]"
    if "doc vehicleId = Inr ref" and "get_rejects io = None" for ref
    using that assms by (simp add: add_condition_def doc_get_def)
  ultimately show ?thesis by blast
qed

theorem add_condition_missing_vehicle_witness:
  "doc ''v2'' = Inr ''v2'' \<and> get_rejects reliable = None \<and> example_db ''v2'' = None \<and>
   status (fst (add_condition ''u1'' reliable example_db ''v2'' (JObj fmempty))) = 404 \<and>
   snd (add_condition ''u1'' reliable example_db ''v2'' (JObj fmempty)) = example_db"
proof -
  have d: "doc ''v2'' = Inr ''v2''" and g: "get_rejects reliable = None"
    and n: "example_db ''v2'' = None"
    by (simp_all add: doc_plain_id reliable_def example_db_def)
  have "\<forall>ref. doc ''v2'' = Inr ref \<longrightarrow> example_db ref = None"
    using d n by simp
  from add_condition_missing_vehicle [OF this, of "''u1''" reliable "JObj fmempty"] d g
  have "snd (add_condition ''u1'' reliable example_db ''v2'' (JObj fmempty)) = example_db"
    and "fst (add_condition ''u1'' reliable example_db ''v2'' (JObj fmempty)) =
      respond 404 [(''error'', JStr ''Vehicle not found'')]"
    by simp_all
  with d g n show ?thesis
    by (simp add: respond_def)
qed

text \<open>
  The claim as written fails for a \<open>vehicleId\<close> that does not address a document: the
  request for \<open>a%2Fb\<close> reaches the handler with \<open>vehicleId = "a/b"\<close>, the store client
  refuses that path before anything is read, and the answer is 500, not 404. Nothing is
  written.
\<close>

theorem add_condition_slash_id_counterexample:
  "example_db ''a/b'' = None \<and>
   add_condition ''u1'' reliable example_db ''a/b'' (JObj fmempty) =
     (respond 500
        [(''error'', JStr ''Error adding condition''),
         (''details'',
          JStr (''Value for argument '' @ quoted ''documentPath'' @
                '' must point to a document, but was '' @ quoted ''a/b'' @
                ''. Your path does not contain an even number of components.''))],
      example_db)"
  by (simp add: add_condition_def doc_def example_db_def Let_def)

subsection \<open>Only the conditions field is written\<close>

text \<open>
  Claim C10. Whatever the request and whatever the store answers, adding or deleting a
  condition leaves the set of documents as it was, leaves every document other than the
  one \<open>vehicleId\<close> addresses untouched, and leaves every field other than \<open>conditions\<close>
  of every document with the value it had.
\<close>

theorem condition_writes_only_conditions:
  assumes "db' = snd (add_condition uuid io db vehicleId reqBody) \<or>
           db' = snd (delete_condition io db vehicleId conditionId)"
  shows "dom db' = dom db \<and>
         (\<forall>key. doc vehicleId \<noteq> Inr key \<longrightarrow> db' key = db key) \<and>
         (\<forall>key name. name \<noteq> ''conditions'' \<longrightarrow> field_of db' key name = field_of db key name)"
proof -
  from assms add_condition_frame [of uuid io db vehicleId reqBody]
    delete_condition_frame [of io db vehicleId conditionId]
  have "db' = db \<or> (\<exists>ref d v. doc vehicleId = Inr ref \<and> db ref = Some d \<and>
      db' = db(ref \<mapsto> fmupd ''conditions'' v d))"
    by auto
  then show ?thesis
  proof
    assume "db' = db"
    then show ?thesis by simp
  next
    assume "\<exists>ref d v. doc vehicleId = Inr ref \<and> db ref = Some d \<and>
      db' = db(ref \<mapsto> fmupd ''conditions'' v d)"
    then obtain ref d v where ref: "doc vehicleId = Inr ref" and d: "db ref = Some d"
      and db': "db' = db(ref \<mapsto> fmupd ''conditions'' v d)"
      by blast
    have "dom db' = dom db" using d db' by auto
    moreover have "\<forall>key. doc vehicleId \<noteq> Inr key \<longrightarrow> db' key = db key"
      using db' ref by auto
    moreover have "\<forall>key name. name \<noteq> ''conditions'' \<longrightarrow> field_of db' key name = field_of db key name"
      using d db' by (simp add: field_of_def)
    ultimately show ?thesis by blast
  qed
qed

theorem condition_writes_only_conditions_witness:
  "status (fst (add_condition ''u1'' reliable example_db ''v1'' (JObj fmempty))) = 201 \<and>
   field_of (snd (add_condition ''u1'' reliable example_db ''v1'' (JObj fmempty))) ''v1'' ''make'' =
     Some (JStr ''Fiat'') \<and>
   field_of (snd (add_condition ''u1'' reliable example_db ''v1'' (JObj fmempty))) ''v1'' ''conditions'' =
     Some (JArr [JObj (fmap_of_list [(''id'', JStr ''u1'')])]) \<and>
   dom (snd (add_condition ''u1'' reliable example_db ''v1'' (JObj fmempty))) = {''v1''}"
proof -
  let ?db' = "snd (add_condition ''u1'' reliable example_db ''v1'' (JObj fmempty))"
  have "?db' = ?db' \<or> ?db' = snd (delete_condition reliable example_db ''v1'' ''a'')"
    by simp
  from condition_writes_only_conditions [OF this]
  have frame: "dom ?db' = dom example_db"
    "field_of ?db' ''v1'' ''make'' = field_of example_db ''v1'' ''make''"
    by simp_all
  have "field_of example_db ''v1'' ''make'' = Some (JStr ''Fiat'')" "dom example_db = {''v1''}"
    by (simp_all add: example_db_def field_of_def)
  with frame show ?thesis
    by (simp add: example_eval)
qed

subsection \<open>Reading a vehicle without conditions\<close>

text \<open>
  Claim C5. When the document exists and has no \<open>conditions\<close> field, the read endpoint
  answers 200 with one object in which \<open>conditions\<close> is the empty sequence, every field
  of the document appears with its value, and \<open>vehicleId\<close> is present: the request's
  \<open>vehicleId\<close>, unless the document has a field of that name, whose value then stands.
  The object has no other property.
\<close>

theorem get_vehicle_defaults_conditions:
  assumes "get_rejects io = None" and "doc vehicleId = Inr ref"
    and "db ref = Some vehicleData"
    and "fmlookup vehicleData ''conditions'' = None"
  shows "\<exists>m. get_vehicle io db vehicleId = \<lparr>status = 200, body = JObj m\<rparr> \<and>
     fmlookup m ''conditions'' = Some (JArr []) \<and>
     (\<forall>name v. fmlookup vehicleData name = Some v \<longrightarrow> fmlookup m name = Some v) \<and>
     fmlookup m ''vehicleId'' =
       Some (case fmlookup vehicleData ''vehicleId'' of None \<Rightarrow> JStr vehicleId | Some v \<Rightarrow> v) \<and>
     fmdom' m = fmdom' vehicleData \<union> {''vehicleId'', ''conditions''}"
  using assms
  by (auto simp: get_vehicle_def doc_get_def or_empty_array_def fmlookup_dom'_iff
      split: option.splits if_splits)

theorem get_vehicle_defaults_conditions_witness:
  "get_rejects reliable = None \<and> doc ''v1'' = Inr ''v1'' \<and>
   example_db ''v1'' = Some (fmap_of_list [(''make'', JStr ''Fiat'')]) \<and>
   fmlookup (fmap_of_list [(''make'', JStr ''Fiat'')]) ''conditions'' = None \<and>
   status (get_vehicle reliable example_db ''v1'') = 200 \<and>
   prop_of (body (get_vehicle reliable example_db ''v1'')) ''conditions'' = Some (JArr []) \<and>
   prop_of (body (get_vehicle reliable example_db ''v1'')) ''make'' = Some (JStr ''Fiat'') \<and>
   prop_of (body (get_vehicle reliable example_db ''v1'')) ''vehicleId'' = Some (JStr ''v1'')"
proof -
  have h: "get_rejects reliable = None" "doc ''v1'' = Inr ''v1''"
    "example_db ''v1'' = Some (fmap_of_list [(''make'', JStr ''Fiat'')])"
    "fmlookup (fmap_of_list [(''make'', JStr ''Fiat'')]) ''conditions'' = None"
    by (simp_all add: reliable_def example_db_def fmlookup_of_list doc_plain_id)
  from get_vehicle_defaults_conditions
         [where io = reliable and db = example_db and vehicleId = "''v1''" and ref = "''v1''",
          OF h]
  obtain m where
    m: "get_vehicle reliable example_db ''v1'' = \<lparr>status = 200, body = JObj m\<rparr>"
      "fmlookup m ''conditions'' = Some (JArr [])"
      "\<forall>name v. fmlookup (fmap_of_list [(''make'', JStr ''Fiat'')]) name = Some v \<longrightarrow>
         fmlookup m name = Some v"
      "fmlookup m ''vehicleId'' =
         Some (case fmlookup (fmap_of_list [(''make'', JStr ''Fiat'')]) ''vehicleId'' of
                 None \<Rightarrow> JStr ''v1'' | Some v \<Rightarrow> v)"
    by blast
  from m(3) have "fmlookup m ''make'' = Some (JStr ''Fiat'')"
    by (simp add: fmlookup_of_list)
  with h m(1,2,4) show ?thesis
    by (simp add: fmlookup_of_list)
qed

subsection \<open>An id in the request body\<close>

text \<open>
  Claim C9. When the body of a successful add request has an \<open>id\<close> property of its own,
  the record returned with 201 carries the caller's value as its \<open>id\<close>, not the generated
  one, and that same record is the last element of the \<open>conditions\<close> stored in the
  document that \<open>vehicleId\<close> addresses.
\<close>

theorem add_condition_body_id_wins:
  assumes "fmlookup b ''id'' = Some v"
    and "add_condition uuid io db vehicleId (JObj b) = (res, db')"
    and "status res = 201"
  shows "prop_of (body res) ''id'' = Some v \<and>
     (\<exists>ref cs. doc vehicleId = Inr ref \<and>
        field_of db' ref ''conditions'' = Some (JArr (cs @ [body res])))"
proof -
  from assms(2,3) have "status (fst (add_condition uuid io db vehicleId (JObj b))) = 201"
    by simp
  from add_condition_201 [OF this] obtain ref d cs where
    ok: "doc vehicleId = Inr ref" "get_rejects io = None" "update_rejects io = None"
      "db ref = Some d" "conditions_of d = Some cs"
    by blast
  let ?r = "conditionData uuid (JObj b)"
  have "add_condition uuid io db vehicleId (JObj b) =
      (\<lparr>status = 201, body = JObj ?r\<rparr>,
       db(ref \<mapsto> fmupd ''conditions'' (JArr (cs @ [JObj ?r])) d))"
    using ok by (rule add_condition_ok)
  with assms(2)
  have res: "res = \<lparr>status = 201, body = JObj ?r\<rparr>"
    and db': "db' = db(ref \<mapsto> fmupd ''conditions'' (JArr (cs @ [JObj ?r])) d)"
    by simp_all
  have "prop_of (body res) ''id'' = Some v"
    using assms(1) res by (simp add: conditionData_id)
  moreover have "field_of db' ref ''conditions'' = Some (JArr (cs @ [body res]))"
    using db' res by (simp add: field_of_def)
  ultimately show ?thesis using ok(1) by blast
qed

theorem add_condition_body_id_wins_witness:
  "fmlookup (fmap_of_list [(''id'', JStr ''mine''), (''note'', JStr ''chip'')]) ''id'' = Some (JStr ''mine'') \<and>
   status (fst (add_condition ''u1'' reliable example_db ''v1''
     (JObj (fmap_of_list [(''id'', JStr ''mine''), (''note'', JStr ''chip'')])))) = 201 \<and>
   prop_of (body (fst (add_condition ''u1'' reliable example_db ''v1''
     (JObj (fmap_of_list [(''id'', JStr ''mine''), (''note'', JStr ''chip'')]))))) ''id'' = Some (JStr ''mine'')"
proof -
  let ?b = "fmap_of_list [(''id'', JStr ''mine''), (''note'', JStr ''chip'')]"
  let ?run = "add_condition ''u1'' reliable example_db ''v1'' (JObj ?b)"
  have h1: "fmlookup ?b ''id'' = Some (JStr ''mine'')"
    by (simp add: fmlookup_of_list)
  have h2: "?run = (fst ?run, snd ?run)"
    by simp
  have h3: "status (fst ?run) = 201"
    by (simp add: example_eval)
  from add_condition_body_id_wins [OF h1 h2 h3] h1 h3 show ?thesis
    by blast
qed

subsection \<open>Add, then read\<close>

text \<open>
  Claim C8. After a successful add with a JSON object as body, the returned record agrees
  with the body on every property other than \<open>id\<close> (its \<open>id\<close> is the body's own if the
  body has one, the generated one otherwise), and a read of the same vehicle is answered
  with 200 and a \<open>conditions\<close> sequence whose last element is exactly that record.
\<close>

theorem add_then_read_roundtrip:
  assumes "add_condition uuid io db vehicleId (JObj b) = (res, db')"
    and "status res = 201"
    and "get_rejects io' = None"
  shows "(\<forall>name. name \<noteq> ''id'' \<longrightarrow> prop_of (body res) name = fmlookup b name) \<and>
     prop_of (body res) ''id'' = Some (case fmlookup b ''id'' of None \<Rightarrow> JStr uuid | Some v \<Rightarrow> v) \<and>
     status (get_vehicle io' db' vehicleId) = 200 \<and>
     (\<exists>cs. prop_of (body (get_vehicle io' db' vehicleId)) ''conditions'' =
             Some (JArr (cs @ [body res])))"
proof -
  from assms(1,2) have "status (fst (add_condition uuid io db vehicleId (JObj b))) = 201"
    by simp
  from add_condition_201 [OF this] obtain ref d cs where
    ok: "doc vehicleId = Inr ref" "get_rejects io = None" "update_rejects io = None"
      "db ref = Some d" "conditions_of d = Some cs"
    by blast
  let ?r = "conditionData uuid (JObj b)"
  let ?d' = "fmupd ''conditions'' (JArr (cs @ [JObj ?r])) d"
  have "add_condition uuid io db vehicleId (JObj b) =
      (\<lparr>status = 201, body = JObj ?r\<rparr>, db(ref \<mapsto> ?d'))"
    using ok by (rule add_condition_ok)
  with assms(1)
  have res: "res = \<lparr>status = 201, body = JObj ?r\<rparr>"
    and db': "db' = db(ref \<mapsto> ?d')"
    by simp_all
  let ?m = "fmupd ''conditions'' (or_empty_array (fmlookup ?d' ''conditions''))
              (fmupd ''vehicleId'' (JStr vehicleId) fmempty ++\<^sub>f ?d')"
  have read: "get_vehicle io' db' vehicleId = \<lparr>status = 200, body = JObj ?m\<rparr>"
    using assms(3) db' ok(1) by (simp add: get_vehicle_def doc_get_def)
  have look: "fmlookup ?m ''conditions'' = Some (JArr (cs @ [JObj ?r]))"
    by (simp add: or_empty_array_def)
  have 1: "\<forall>name. name \<noteq> ''id'' \<longrightarrow> prop_of (body res) name = fmlookup b name"
    using res by (simp add: conditionData_other)
  have 2: "prop_of (body res) ''id'' =
      Some (case fmlookup b ''id'' of None \<Rightarrow> JStr uuid | Some v \<Rightarrow> v)"
    using res by (simp add: conditionData_id)
  have 3: "status (get_vehicle io' db' vehicleId) = 200"
    using read by simp
  have 4: "prop_of (body (get_vehicle io' db' vehicleId)) ''conditions'' =
      Some (JArr (cs @ [body res]))"
    unfolding read using look res by simp
  from 1 2 3 4 show ?thesis by blast
qed

theorem add_then_read_roundtrip_witness:
  "status (fst (add_condition ''u1'' reliable example_db ''v1''
     (JObj (fmap_of_list [(''note'', JStr ''chip'')])))) = 201 \<and>
   get_rejects reliable = None \<and>
   prop_of (body (fst (add_condition ''u1'' reliable example_db ''v1''
     (JObj (fmap_of_list [(''note'', JStr ''chip'')]))))) ''note'' = Some (JStr ''chip'') \<and>
   prop_of (body (fst (add_condition ''u1'' reliable example_db ''v1''
     (JObj (fmap_of_list [(''note'', JStr ''chip'')]))))) ''id'' = Some (JStr ''u1'') \<and>
   status (get_vehicle reliable (snd (add_condition ''u1'' reliable example_db ''v1''
     (JObj (fmap_of_list [(''note'', JStr ''chip'')])))) ''v1'') = 200"
proof -
  let ?b = "fmap_of_list [(''note'', JStr ''chip'')]"
  let ?run = "add_condition ''u1'' reliable example_db ''v1'' (JObj ?b)"
  have h1: "?run = (fst ?run, snd ?run)"
    by simp
  have h2: "status (fst ?run) = 201"
    by (simp add: example_eval)
  have h3: "get_rejects reliable = None"
    by (simp add: reliable_def)
  from add_then_read_roundtrip [OF h1 h2 h3]
  have "prop_of (body (fst ?run)) ''note'' = fmlookup ?b ''note''"
    and "prop_of (body (fst ?run)) ''id'' =
       Some (case fmlookup ?b ''id'' of None \<Rightarrow> JStr ''u1'' | Some v \<Rightarrow> v)"
    and "status (get_vehicle reliable (snd ?run) ''v1'') = 200"
    by simp_all
  with h2 h3 show ?thesis
    by (simp add: fmlookup_of_list)
qed

subsection \<open>Two adds in a row\<close>

lemma nth_uuid_eq: "nth_uuid src m = nth_uuid src n \<longleftrightarrow> m = n"
  using nth_uuid [of src] by (auto dest: injD)

lemma post_condition_eq:
  assumes "post_condition src io s vehicleId reqBody = (res, s')"
  shows "add_condition (nth_uuid src (uuid_calls s)) io (store s) vehicleId reqBody =
           (res, store s') \<and> uuid_calls s' = Suc (uuid_calls s)"
  using assms by (auto simp: post_condition_def split: prod.splits)

lemma has_id_conditionData:
  "fmlookup b ''id'' = None \<Longrightarrow> has_id u (JObj (conditionData uuid (JObj b))) \<longleftrightarrow> u = uuid"
  by (auto simp: has_id_def conditionData_id)

text \<open>
  Claim C2, as the code has it. For an existing vehicle document whose \<open>conditions\<close>
  field is absent, falsy or an array, and a store that answers, two add requests in a row
  whose bodies are JSON objects without an \<open>id\<close> property are both answered with 201,
  and afterwards the stored \<open>conditions\<close> are the earlier ones followed by the first
  and then the second returned record. Each of the two records carries the \<open>id\<close>
  generated for its request, and the two ids differ. They also differ from the \<open>id\<close>
  of every earlier record, and stay clear of what the generator returns later, provided
  no earlier record carries an \<open>id\<close> that the generator has yet to return.
\<close>

theorem two_adds_append_in_order:
  assumes "get_rejects io1 = None" "update_rejects io1 = None"
    and "get_rejects io2 = None" "update_rejects io2 = None"
    and "doc vehicleId = Inr ref" and "store s ref = Some d" and "conditions_of d = Some cs"
    and "fmlookup b1 ''id'' = None" and "fmlookup b2 ''id'' = None"
    and "post_condition src io1 s vehicleId (JObj b1) = (res1, s1)"
    and "post_condition src io2 s1 vehicleId (JObj b2) = (res2, s2)"
  shows "status res1 = 201 \<and> status res2 = 201 \<and>
     field_of (store s2) ref ''conditions'' = Some (JArr (cs @ [body res1, body res2])) \<and>
     has_id (nth_uuid src (uuid_calls s)) (body res1) \<and>
     has_id (nth_uuid src (Suc (uuid_calls s))) (body res2) \<and>
     get_id (body res1) \<noteq> get_id (body res2) \<and>
     (unissued_absent src (uuid_calls s) cs \<longrightarrow>
        (\<forall>c \<in> set cs. get_id c \<noteq> get_id (body res1) \<and> get_id c \<noteq> get_id (body res2)) \<and>
        unissued_absent src (uuid_calls s2) (cs @ [body res1, body res2]))"
proof -
  let ?n = "uuid_calls s"
  let ?u1 = "nth_uuid src ?n"
  let ?u2 = "nth_uuid src (Suc ?n)"
  let ?r1 = "conditionData ?u1 (JObj b1)"
  let ?r2 = "conditionData ?u2 (JObj b2)"
  let ?d1 = "fmupd ''conditions'' (JArr (cs @ [JObj ?r1])) d"
  from post_condition_eq [OF assms(10)]
  have run1: "add_condition ?u1 io1 (store s) vehicleId (JObj b1) = (res1, store s1)"
    and n1: "uuid_calls s1 = Suc ?n"
    by simp_all
  from post_condition_eq [OF assms(11)] n1
  have run2: "add_condition ?u2 io2 (store s1) vehicleId (JObj b2) = (res2, store s2)"
    and n2: "uuid_calls s2 = Suc (Suc ?n)"
    by simp_all
  have "add_condition ?u1 io1 (store s) vehicleId (JObj b1) =
      (\<lparr>status = 201, body = JObj ?r1\<rparr>, (store s)(ref \<mapsto> ?d1))"
    using assms(5,1,2,6,7) by (rule add_condition_ok)
  with run1
  have res1: "res1 = \<lparr>status = 201, body = JObj ?r1\<rparr>"
    and db1: "store s1 = (store s)(ref \<mapsto> ?d1)"
    by simp_all
  have d1: "store s1 ref = Some ?d1" using db1 by simp
  have c1: "conditions_of ?d1 = Some (cs @ [JObj ?r1])" by simp
  have "add_condition ?u2 io2 (store s1) vehicleId (JObj b2) =
      (\<lparr>status = 201, body = JObj ?r2\<rparr>,
       (store s1)(ref \<mapsto> fmupd ''conditions'' (JArr ((cs @ [JObj ?r1]) @ [JObj ?r2])) ?d1))"
    using assms(5,3,4) d1 c1 by (rule add_condition_ok)
  with run2
  have res2: "res2 = \<lparr>status = 201, body = JObj ?r2\<rparr>"
    and db2: "store s2 = (store s1)(ref \<mapsto>
       fmupd ''conditions'' (JArr ((cs @ [JObj ?r1]) @ [JObj ?r2])) ?d1)"
    by simp_all
  have stored: "field_of (store s2) ref ''conditions'' =
      Some (JArr (cs @ [body res1, body res2]))"
    using db2 res1 res2 by (simp add: field_of_def)
  have id1: "has_id u (body res1) \<longleftrightarrow> u = ?u1" for u
    using res1 assms(8) by (simp add: has_id_conditionData)
  have id2: "has_id u (body res2) \<longleftrightarrow> u = ?u2" for u
    using res2 assms(9) by (simp add: has_id_conditionData)
  have g1: "get_id (body res1) = Inr (Some (JStr ?u1))"
    using id1 [of ?u1] by (simp add: has_id_def)
  have g2: "get_id (body res2) = Inr (Some (JStr ?u2))"
    using id2 [of ?u2] by (simp add: has_id_def)
  have differ: "get_id (body res1) \<noteq> get_id (body res2)"
    using g1 g2 by (simp add: nth_uuid_eq)
  have earlier: "(\<forall>c \<in> set cs. get_id c \<noteq> get_id (body res1) \<and> get_id c \<noteq> get_id (body res2)) \<and>
        unissued_absent src (uuid_calls s2) (cs @ [body res1, body res2])"
    if inv: "unissued_absent src ?n cs"
  proof -
    have "get_id c \<noteq> get_id (body res1) \<and> get_id c \<noteq> get_id (body res2)"
      if "c \<in> set cs" for c
    proof -
      from inv that have "\<not> has_id ?u1 c" "\<not> has_id ?u2 c"
        by (auto simp: unissued_absent_def)
      then show ?thesis
        using g1 g2 by (simp add: has_id_def)
    qed
    moreover have "unissued_absent src (uuid_calls s2) (cs @ [body res1, body res2])"
      using inv n2 id1 id2 by (auto simp: unissued_absent_def nth_uuid_eq)
    ultimately show ?thesis by blast
  qed
  from res1 res2 stored id1 [of ?u1] id2 [of ?u2] differ earlier show ?thesis
    by simp
qed

theorem two_adds_append_in_order_witness:
  "get_rejects reliable = None \<and> update_rejects reliable = None \<and>
   doc ''v1'' = Inr ''v1'' \<and>
   fmlookup (fmap_of_list [(''note'', JStr ''chip'')]) ''id'' = None \<and>
   fmlookup (fmap_of_list [(''note'', JStr ''rust'')]) ''id'' = None \<and>
   unissued_absent example_uuids 0 example_conditions \<and>
   field_of
     (store (snd (post_condition example_uuids reliable
        (snd (post_condition example_uuids reliable example_server ''v1''
                (JObj (fmap_of_list [(''note'', JStr ''chip'')]))))
        ''v1'' (JObj (fmap_of_list [(''note'', JStr ''rust'')])))))
     ''v1'' ''conditions'' =
   Some (JArr (example_conditions @
               [JObj (fmap_of_list [(''note'', JStr ''chip''), (''id'', JStr ''uuid-'')]),
                JObj (fmap_of_list [(''note'', JStr ''rust''), (''id'', JStr ''uuid-x'')])])) \<and>
   get_id (body (fst (post_condition example_uuids reliable example_server ''v1''
                (JObj (fmap_of_list [(''note'', JStr ''chip'')]))))) \<noteq>
   get_id (body (fst (post_condition example_uuids reliable
        (snd (post_condition example_uuids reliable example_server ''v1''
                (JObj (fmap_of_list [(''note'', JStr ''chip'')]))))
        ''v1'' (JObj (fmap_of_list [(''note'', JStr ''rust'')])))))"
proof -
  let ?b1 = "fmap_of_list [(''note'', JStr ''chip'')]"
  let ?b2 = "fmap_of_list [(''note'', JStr ''rust'')]"
  let ?d = "fmap_of_list [(''make'', JStr ''Fiat''), (''conditions'', JArr example_conditions)]"
  let ?run1 = "post_condition example_uuids reliable example_server ''v1'' (JObj ?b1)"
  let ?run2 = "post_condition example_uuids reliable (snd ?run1) ''v1'' (JObj ?b2)"
  have io: "get_rejects reliable = None" "update_rejects reliable = None"
    by (simp_all add: reliable_def)
  have ref: "doc ''v1'' = Inr ''v1''"
    by (rule doc_plain_id)
  have d: "store example_server ''v1'' = Some ?d"
    by (simp add: example_server_def example_db_conditions_def)
  have cs: "conditions_of ?d = Some example_conditions"
    by (simp add: conditions_of_def or_empty_array_def fmlookup_of_list)
  have b: "fmlookup ?b1 ''id'' = None" "fmlookup ?b2 ''id'' = None"
    by (simp_all add: fmlookup_of_list)
  have inv: "unissued_absent example_uuids 0 example_conditions"
    by (simp add: unissued_absent_def example_conditions_def has_id_def fmlookup_of_list
        example_uuids.rep_eq)
  have n: "uuid_calls example_server = 0"
    by (simp add: example_server_def)
  have r1: "?run1 = (fst ?run1, snd ?run1)" and r2: "?run2 = (fst ?run2, snd ?run2)"
    by simp_all
  from two_adds_append_in_order [OF io io ref d cs b r1 r2] inv n
  have stored: "field_of (store (snd ?run2)) ''v1'' ''conditions'' =
      Some (JArr (example_conditions @ [body (fst ?run1), body (fst ?run2)]))"
    and differ: "get_id (body (fst ?run1)) \<noteq> get_id (body (fst ?run2))"
    by simp_all
  have "body (fst ?run1) = JObj (fmap_of_list [(''note'', JStr ''chip''), (''id'', JStr ''uuid-'')])"
    by (simp add: post_condition_def example_server_def example_eval example_uuids.rep_eq
        split: prod.splits)
  moreover have "body (fst ?run2) =
      JObj (fmap_of_list [(''note'', JStr ''rust''), (''id'', JStr ''uuid-x'')])"
    by (simp add: post_condition_def example_server_def example_eval example_uuids.rep_eq
        split: prod.splits)
  ultimately show ?thesis
    using stored differ io ref b inv by simp
qed

text \<open>
  The claim as written fails: two add requests whose bodies both carry \<open>id: "x"\<close>
  are answered with 201 and leave two records with the same \<open>id\<close>, the caller's, although
  two different values were generated.
\<close>

theorem two_adds_same_body_id_counterexample:
  "''u1'' \<noteq> ''u2'' \<and>
   status (fst (add_condition ''u1'' reliable example_db ''v1''
                  (JObj (fmap_of_list [(''id'', JStr ''x'')])))) = 201 \<and>
   status (fst (add_condition ''u2'' reliable
                  (snd (add_condition ''u1'' reliable example_db ''v1''
                          (JObj (fmap_of_list [(''id'', JStr ''x'')]))))
                  ''v1'' (JObj (fmap_of_list [(''id'', JStr ''x'')])))) = 201 \<and>
   field_of
     (snd (add_condition ''u2'' reliable
             (snd (add_condition ''u1'' reliable example_db ''v1''
                     (JObj (fmap_of_list [(''id'', JStr ''x'')]))))
             ''v1'' (JObj (fmap_of_list [(''id'', JStr ''x'')]))))
     ''v1'' ''conditions'' =
   Some (JArr [JObj (fmap_of_list [(''id'', JStr ''x'')]),
               JObj (fmap_of_list [(''id'', JStr ''x'')])])"
  by (simp add: example_eval)

subsection \<open>Deleting a condition\<close>

text \<open>
  Claim C3, as the code has it. For an existing vehicle document whose \<open>conditions\<close>
  are a sequence of records (absent or falsy counts as the empty sequence; no element is
  \<open>null\<close>) and a store that answers, deleting by \<open>conditionId\<close> is answered with 200
  and stores the sequence without every record whose \<open>id\<close> is \<open>conditionId\<close>, the
  others in their order. So when exactly one record has that \<open>id\<close>, exactly that record
  is gone and the records before and after it remain; and when no record has that
  \<open>id\<close>, the sequence is stored as it was, still with 200.
\<close>

theorem delete_condition_removes_by_id:
  assumes "get_rejects io = None" and "update_rejects io = None"
    and "doc vehicleId = Inr ref"
    and "db ref = Some d" and "conditions_of d = Some cs" and "JNull \<notin> set cs"
    and "delete_condition io db vehicleId conditionId = (res, db')"
  shows "res = respond 200 [(''message'', JStr ''Condition deleted successfully'')] \<and>
     field_of db' ref ''conditions'' =
       Some (JArr (filter (\<lambda>c. \<not> has_id conditionId c) cs)) \<and>
     (\<forall>before r after.
        cs = before @ r # after \<and> has_id conditionId r \<and>
        (\<forall>c \<in> set (before @ after). \<not> has_id conditionId c) \<longrightarrow>
        field_of db' ref ''conditions'' = Some (JArr (before @ after))) \<and>
     ((\<forall>c \<in> set cs. \<not> has_id conditionId c) \<longrightarrow>
        field_of db' ref ''conditions'' = Some (JArr cs))"
proof -
  let ?cs' = "filter (\<lambda>c. \<not> has_id conditionId c) cs"
  have "delete_condition io db vehicleId conditionId =
      (respond 200 [(''message'', JStr ''Condition deleted successfully'')],
       db(ref \<mapsto> fmupd ''conditions'' (JArr ?cs') d))"
    using assms(3,1,2,4,5,6) by (rule delete_condition_ok)
  with assms(7)
  have res: "res = respond 200 [(''message'', JStr ''Condition deleted successfully'')]"
    and db': "db' = db(ref \<mapsto> fmupd ''conditions'' (JArr ?cs') d)"
    by simp_all
  have stored: "field_of db' ref ''conditions'' = Some (JArr ?cs')"
    using db' by (simp add: field_of_def)
  have one: "\<forall>before r after. cs = before @ r # after \<and> has_id conditionId r \<and>
            (\<forall>c \<in> set (before @ after). \<not> has_id conditionId c) \<longrightarrow> ?cs' = before @ after"
    by auto
  have none: "(\<forall>c \<in> set cs. \<not> has_id conditionId c) \<longrightarrow> ?cs' = cs"
    by simp
  from res stored one none show ?thesis by simp
qed

theorem delete_condition_removes_by_id_witness:
  "get_rejects reliable = None \<and> update_rejects reliable = None \<and>
   doc ''v1'' = Inr ''v1'' \<and>
   conditions_of (fmap_of_list [(''make'', JStr ''Fiat''), (''conditions'', JArr example_conditions)]) =
     Some example_conditions \<and>
   JNull \<notin> set example_conditions \<and>
   status (fst (delete_condition reliable example_db_conditions ''v1'' ''a'')) = 200 \<and>
   field_of (snd (delete_condition reliable example_db_conditions ''v1'' ''a'')) ''v1'' ''conditions'' =
     Some (JArr [JObj (fmap_of_list [(''id'', JStr ''b''), (''note'', JStr ''dent'')])]) \<and>
   field_of (snd (delete_condition reliable example_db_conditions ''v1'' ''zzz'')) ''v1'' ''conditions'' =
     Some (JArr example_conditions)"
proof -
  let ?d = "fmap_of_list [(''make'', JStr ''Fiat''), (''conditions'', JArr example_conditions)]"
  let ?a = "JObj (fmap_of_list [(''id'', JStr ''a''), (''note'', JStr ''scratch'')])"
  let ?b = "JObj (fmap_of_list [(''id'', JStr ''b''), (''note'', JStr ''dent'')])"
  let ?run = "delete_condition reliable example_db_conditions ''v1''"
  have io: "get_rejects reliable = None" "update_rejects reliable = None"
    by (simp_all add: reliable_def)
  have ref: "doc ''v1'' = Inr ''v1''"
    by (rule doc_plain_id)
  have d: "example_db_conditions ''v1'' = Some ?d"
    by (simp add: example_db_conditions_def)
  have cs: "conditions_of ?d = Some example_conditions"
    by (simp add: conditions_of_def or_empty_array_def fmlookup_of_list)
  have nn: "JNull \<notin> set example_conditions"
    by (simp add: example_conditions_def)
  have ra: "?run ''a'' = (fst (?run ''a''), snd (?run ''a''))"
    and rz: "?run ''zzz'' = (fst (?run ''zzz''), snd (?run ''zzz''))"
    by simp_all
  have shape: "example_conditions = [] @ ?a # [?b]"
    by (simp add: example_conditions_def)
  have ida: "has_id ''a'' ?a" and idb: "\<forall>c \<in> set ([] @ [?b]). \<not> has_id ''a'' c"
    by (simp_all add: has_id_def fmlookup_of_list)
  have idz: "\<forall>c \<in> set example_conditions. \<not> has_id ''zzz'' c"
    by (simp add: example_conditions_def has_id_def fmlookup_of_list)
  from delete_condition_removes_by_id [OF io ref d cs nn ra] shape ida idb
  have "status (fst (?run ''a'')) = 200"
    and "field_of (snd (?run ''a'')) ''v1'' ''conditions'' = Some (JArr ([] @ [?b]))"
    by (simp add: respond_def, blast)
  moreover from delete_condition_removes_by_id [OF io ref d cs nn rz] idz
  have "field_of (snd (?run ''zzz'')) ''v1'' ''conditions'' = Some (JArr example_conditions)"
    by blast
  ultimately show ?thesis using io ref cs nn by simp
qed

text \<open>
  The claim as written fails where two records share an \<open>id\<close>, which the add endpoint
  itself brings about when two bodies carry the same \<open>id\<close>: the two records differ in
  their \<open>note\<close>, both have the \<open>id\<close> \<open>x\<close>, and deleting \<open>x\<close> removes both, not
  exactly one.
\<close>

theorem delete_condition_twins_counterexample:
  "field_of example_db_twins ''v1'' ''conditions'' =
     Some (JArr [JObj (conditionData ''u1'' twin_first), JObj (conditionData ''u2'' twin_second)]) \<and>
   has_id ''x'' (JObj (conditionData ''u1'' twin_first)) \<and>
   has_id ''x'' (JObj (conditionData ''u2'' twin_second)) \<and>
   prop_of (JObj (conditionData ''u1'' twin_first)) ''note'' = Some (JStr ''first'') \<and>
   prop_of (JObj (conditionData ''u2'' twin_second)) ''note'' = Some (JStr ''second'') \<and>
   status (fst (delete_condition reliable example_db_twins ''v1'' ''x'')) = 200 \<and>
   field_of (snd (delete_condition reliable example_db_twins ''v1'' ''x'')) ''v1'' ''conditions'' =
     Some (JArr [])"
  by (simp add: example_eval example_db_twins_def twin_first_def twin_second_def)

section \<open>Properties of paths\<close>

lemma string_of_nat_digits: "set (string_of_nat n) \<subseteq> set ''0123456789''"
proof (induction n rule: string_of_nat.induct)
  case (1 n)
  have digit: "''0123456789'' ! k \<in> set ''0123456789''" if "k < 10" for k
    using that nth_mem [of k "''0123456789''"] by simp
  show ?case
  proof (cases "n < 10")
    case True
    then show ?thesis
      using digit [of n] by (subst string_of_nat.simps) simp
  next
    case False
    have "n mod 10 < 10" by simp
    from digit [OF this] 1 False show ?thesis
      by (subst string_of_nat.simps) simp
  qed
qed

lemma string_of_nat_nonempty: "string_of_nat n \<noteq> []"
  by (subst string_of_nat.simps) simp

lemma split_slash_nonempty [simp]: "split_slash s \<noteq> []"
  by (cases s) (auto split: list.splits)

lemma split_slash_segment:
  "CHR ''/'' \<notin> set s \<Longrightarrow> split_slash (s @ CHR ''/'' # rest) = s # split_slash rest"
  by (induction s) auto

lemma split_slash_single: "CHR ''/'' \<notin> set s \<Longrightarrow> split_slash s = [s]"
  by (induction s) auto

lemma plain_normalizeString:
  "\<forall>s \<in> set segs. s = [] \<or> plain_segment s \<Longrightarrow>
   normalizeString allowAbove res segs = res @ filter (\<lambda>s. s \<noteq> []) segs"
  by (induction segs arbitrary: res) (auto simp: plain_segment_def)

lemma normalize_absolute:
  assumes "p \<noteq> []" and "hd p = CHR ''/''" and "last p \<noteq> CHR ''/''"
    and "normalizeString False [] (split_slash p) = segs" and "join_slash segs \<noteq> []"
  shows "normalize p = CHR ''/'' # join_slash segs"
  using assms by (simp add: normalize_def Let_def)

lemma split_slash_append:
  "split_slash (a @ CHR ''/'' # b) = split_slash a @ split_slash b"
proof (induction a)
  case Nil
  then show ?case by simp
next
  case (Cons c a)
  obtain s ss where "split_slash a = s # ss"
    using split_slash_nonempty [of a] by (cases "split_slash a") auto
  with Cons show ?case by simp
qed

lemma join_slash_Cons_Cons: "join_slash ((c # s) # ss) = c # join_slash (s # ss)"
  by (cases ss) simp_all

lemma join_slash_empty_Cons: "ss \<noteq> [] \<Longrightarrow> join_slash ([] # ss) = CHR ''/'' # join_slash ss"
  by (cases ss) simp_all

lemma join_split_slash: "join_slash (split_slash s) = s"
proof (induction s)
  case Nil
  then show ?case by simp
next
  case (Cons c s)
  obtain x xs where x: "split_slash s = x # xs"
    using split_slash_nonempty [of s] by (cases "split_slash s") auto
  with Cons show ?case
    by (simp add: join_slash_Cons_Cons join_slash_empty_Cons)
qed

lemma join_slash_append:
  "xs \<noteq> [] \<Longrightarrow> ys \<noteq> [] \<Longrightarrow> join_slash (xs @ ys) = join_slash xs @ CHR ''/'' # join_slash ys"
proof (induction xs rule: join_slash.induct)
  case 1
  then show ?case by simp
next
  case (2 s)
  then show ?case by (cases ys) simp_all
next
  case (3 s t ss)
  then show ?case by simp
qed

lemma plain_path_nonempty: "plain_path s \<Longrightarrow> s \<noteq> []"
  by (auto simp: plain_path_def plain_segment_def)

lemma plain_path_last:
  assumes "plain_path s"
  shows "last s \<noteq> CHR ''/''"
proof
  assume l: "last s = CHR ''/''"
  from assms have "s \<noteq> []" by (rule plain_path_nonempty)
  with l have "s = butlast s @ CHR ''/'' # []"
    using append_butlast_last_id [of s] by simp
  then have "split_slash s = split_slash (butlast s) @ ([] # [])"
    using split_slash_append [of "butlast s" "[]"] by simp
  with assms show False
    by (simp add: plain_path_def plain_segment_def)
qed

lemma plain_path_segment: "plain_segment s \<Longrightarrow> plain_path s"
  by (simp add: plain_path_def plain_segment_def split_slash_single)

lemma path_join_documents:
  assumes "plain_path v" and "plain_path t" and "plain_path f"
  shows "path_join [''/documents'', v, t, f] = ''/documents/'' @ v @ ''/'' @ t @ ''/'' @ f"
proof -
  let ?joined = "''/documents/'' @ v @ ''/'' @ t @ ''/'' @ f"
  let ?segs = "''documents'' # split_slash v @ split_slash t @ split_slash f"
  from assms have ne: "v \<noteq> []" "t \<noteq> []" "f \<noteq> []"
    by (simp_all add: plain_path_nonempty)
  have joined: "join_slash (filter (\<lambda>arg. arg \<noteq> []) [''/documents'', v, t, f]) = ?joined"
    using ne by simp
  have "?joined = [] @ CHR ''/'' # (''documents'' @ CHR ''/'' # (v @ CHR ''/'' # (t @ CHR ''/'' # f)))"
    by simp
  then have "split_slash ?joined =
      split_slash [] @ split_slash ''documents'' @ split_slash v @ split_slash t @ split_slash f"
    by (simp only: split_slash_append)
  also have "\<dots> = [] # ?segs"
    by (simp add: split_slash_single)
  finally have split: "split_slash ?joined = [] # ?segs" .
  have "\<forall>s \<in> set ([] # ?segs). s = [] \<or> plain_segment s"
    using assms by (auto simp: plain_path_def list_all_iff plain_segment_def)
  then have "normalizeString False [] ([] # ?segs) = [] @ filter (\<lambda>s. s \<noteq> []) ([] # ?segs)"
    by (rule plain_normalizeString)
  also have "\<dots> = ?segs"
    using assms by (auto simp: plain_path_def list_all_iff plain_segment_def filter_id_conv)
  finally have norm: "normalizeString False [] (split_slash ?joined) = ?segs"
    unfolding split .
  have js: "join_slash ?segs = ''documents/'' @ v @ ''/'' @ t @ ''/'' @ f"
  proof -
    have tf: "join_slash (split_slash t @ split_slash f) = t @ CHR ''/'' # f"
      by (simp add: join_slash_append join_split_slash)
    have vtf: "join_slash (split_slash v @ (split_slash t @ split_slash f)) =
        v @ CHR ''/'' # (t @ CHR ''/'' # f)"
      by (simp add: join_slash_append join_split_slash)
    have "join_slash ([''documents''] @ (split_slash v @ (split_slash t @ split_slash f))) =
        join_slash [''documents''] @ CHR ''/'' # join_slash (split_slash v @ (split_slash t @ split_slash f))"
      by (rule join_slash_append) simp_all
    with vtf show ?thesis by simp
  qed
  have "last f \<noteq> CHR ''/''"
    using assms(3) by (rule plain_path_last)
  then have last: "last ?joined \<noteq> CHR ''/''"
    using ne by simp
  have "normalize ?joined = CHR ''/'' # join_slash ?segs"
    by (rule normalize_absolute [OF _ _ last norm]) (simp_all add: js)
  then have "normalize ?joined = ?joined"
    by (simp add: js)
  then show ?thesis
    unfolding path_join_def Let_def joined by simp
qed

lemma plain_generated_name:
  assumes "CHR ''/'' \<notin> set original"
  shows "plain_segment (string_of_nat n @ ''-'' @ original)"
proof -
  have "CHR ''/'' \<notin> set (string_of_nat n)" "CHR ''.'' \<notin> set (string_of_nat n)"
    using string_of_nat_digits [of n] by auto
  moreover have "string_of_nat n \<noteq> []" by (rule string_of_nat_nonempty)
  ultimately show ?thesis
    using assms by (cases "string_of_nat n") (auto simp: plain_segment_def)
qed

section \<open>Properties of the upload library's run\<close>

lemma abort_is_error [simp]: "abort env e req fs \<noteq> (None, req', fs')"
  by (simp add: abort_def)

lemma multer_single_File_success:
  assumes "multer_single env (File name original content # parts) req fs = (None, req', fs')"
    and "original \<noteq> []"
  shows "name = ''file'' \<and> req_file req = None \<and>
     (\<exists>dest fs1. storage_destination env fs (req_body req) = Inr (dest, fs1) \<and>
        write_fails env = None \<and> \<not> fileSize \<le> length content \<and>
        multer_single env parts
          (req\<lparr>req_file := Some \<lparr>originalname = original, destination = dest,
                                  filename = storage_filename env original,
                                  path = path_join [dest, storage_filename env original],
                                  bytesWritten = length content\<rparr>\<rparr>)
          (write_file fs1 (path_join [dest, storage_filename env original]) content) =
        (None, req', fs'))"
proof -
  from assms have ok: "name = ''file''" "req_file req = None"
    by (auto split: if_splits)
  from assms ok obtain dest fs1 where
    dest: "storage_destination env fs (req_body req) = Inr (dest, fs1)"
    by (auto split: sum.splits)
  from assms ok dest have w: "write_fails env = None"
    by (auto simp: Let_def split: option.splits)
  from assms ok dest w have small: "\<not> fileSize \<le> length content"
    by (auto simp: Let_def split: if_splits)
  from assms ok dest w small show ?thesis
    by (simp add: Let_def)
qed

lemma multer_single_body:
  "multer_single env parts req fs = (None, req', fs') \<Longrightarrow>
   req_body req' = form_fields (req_body req) parts"
proof (induction parts arbitrary: req fs)
  case Nil
  then show ?case by simp
next
  case (Cons p parts)
  show ?case
  proof (cases p)
    case (Text name v)
    with Cons show ?thesis by (simp split: if_splits)
  next
    case (File name original content)
    show ?thesis
    proof (cases "original = []")
      case True
      with Cons File show ?thesis by simp
    next
      case False
      from multer_single_File_success [OF Cons.prems [unfolded File] False]
      obtain r1 f1 where "multer_single env parts r1 f1 = (None, req', fs')"
        and "req_body r1 = req_body req"
        by force
      with Cons.IH [of r1 f1] File show ?thesis by simp
    qed
  qed
qed

lemma multer_single_keeps_file:
  "multer_single env parts req fs = (None, req', fs') \<Longrightarrow> req_file req = Some f \<Longrightarrow>
   req_file req' = Some f"
proof (induction parts arbitrary: req fs)
  case Nil
  then show ?case by simp
next
  case (Cons p parts)
  show ?case
  proof (cases p)
    case (Text name v)
    with Cons show ?thesis by (simp split: if_splits)
  next
    case (File name original content)
    show ?thesis
    proof (cases "original = []")
      case True
      with Cons File show ?thesis by simp
    next
      case False
      from multer_single_File_success [OF Cons.prems(1) [unfolded File] False] Cons.prems(2)
      show ?thesis by simp
    qed
  qed
qed

lemma multer_single_file:
  "multer_single env parts req fs = (None, req', fs') \<Longrightarrow> req_file req = None \<Longrightarrow>
   req_file req' = Some f \<Longrightarrow>
   \<exists>content. first_file parts = Some (''file'', originalname f, content) \<and>
     filename f = storage_filename env (originalname f)"
proof (induction parts arbitrary: req fs)
  case Nil
  then show ?case by simp
next
  case (Cons p parts)
  show ?case
  proof (cases p)
    case (Text name v)
    with Cons.IH [of "req\<lparr>req_body := appendField (req_body req) name v\<rparr>" fs] Cons.prems
    show ?thesis by (simp split: if_splits)
  next
    case (File name original content)
    show ?thesis
    proof (cases "original = []")
      case True
      with Cons File show ?thesis by simp
    next
      case False
      from multer_single_File_success [OF Cons.prems(1) [unfolded File] False]
      obtain r1 f1 dest where run: "multer_single env parts r1 f1 = (None, req', fs')"
        and r1: "req_file r1 = Some \<lparr>originalname = original, destination = dest,
                                  filename = storage_filename env original,
                                  path = path_join [dest, storage_filename env original],
                                  bytesWritten = length content\<rparr>"
        and name: "name = ''file''"
        by force
      from multer_single_keeps_file [OF run r1] Cons.prems(3)
      have "f = \<lparr>originalname = original, destination = dest,
                                  filename = storage_filename env original,
                                  path = path_join [dest, storage_filename env original],
                                  bytesWritten = length content\<rparr>"
        by simp
      with File False name show ?thesis by simp
    qed
  qed
qed

lemma multer_single_fields:
  "\<forall>p \<in> set pre. \<exists>name v. p = Text name v \<and> length v < fieldSize \<Longrightarrow>
   multer_single env (pre @ rest) req fs =
     multer_single env rest (req\<lparr>req_body := form_fields (req_body req) pre\<rparr>) fs"
proof (induction pre arbitrary: req)
  case Nil
  then show ?case by simp
next
  case (Cons p pre)
  then obtain name v where "p = Text name v" "length v < fieldSize" by auto
  with Cons show ?case by simp
qed

lemma strings_of_4:
  "strings_of [Some (FStr a), v, t, Some (FStr f)] = Inr args \<Longrightarrow>
   \<exists>vs ts. v = Some (FStr vs) \<and> t = Some (FStr ts) \<and> args = [a, vs, ts, f]"
proof -
  assume a: "strings_of [Some (FStr a), v, t, Some (FStr f)] = Inr args"
  obtain vs where v: "v = Some (FStr vs)"
    using a by (cases v rule: form_truthy.cases) auto
  obtain ts where t: "t = Some (FStr ts)"
    using a v by (cases t rule: form_truthy.cases) auto
  from a v t show ?thesis by auto
qed

lemma upload_callback_200:
  assumes "status (upload_callback err req) = 200"
  shows "err = None \<and>
     (\<exists>f vehicleId type. req_file req = Some f \<and>
        req_body req ''vehicleId'' = Some (FStr vehicleId) \<and> vehicleId \<noteq> [] \<and>
        req_body req ''type'' = Some (FStr type) \<and> type \<noteq> [] \<and>
        upload_callback err req =
          respond 200 [(''message'', JStr ''File uploaded successfully''),
                       (''path'', JStr (path_join [''/documents'', vehicleId, type, filename f]))])"
proof -
  from assms have err: "err = None"
    by (auto simp: upload_callback_def respond_def split: option.splits if_splits)
  from assms err obtain f where f: "req_file req = Some f"
    by (auto simp: upload_callback_def respond_def split: option.splits)
  from assms err f have truthy: "form_truthy (req_body req ''vehicleId'')"
      "form_truthy (req_body req ''type'')"
    by (auto simp: upload_callback_def respond_def Let_def split: if_splits)
  from assms err f truthy obtain args where
    args: "strings_of [Some (FStr ''/documents''), req_body req ''vehicleId'',
             req_body req ''type'', Some (FStr (filename f))] = Inr args"
    by (auto simp: upload_callback_def respond_def Let_def path_join_values_def
        split: sum.splits)
  from strings_of_4 [OF args] obtain vs ts where
    v: "req_body req ''vehicleId'' = Some (FStr vs)" and t: "req_body req ''type'' = Some (FStr ts)"
    by blast
  from truthy v t have "vs \<noteq> []" "ts \<noteq> []" by simp_all
  with err f v t show ?thesis
    by (simp add: upload_callback_def Let_def path_join_values_def)
qed

section \<open>Properties of the upload endpoint\<close>

lemmas upload_eval = upload_def upload_callback_def storage_destination_def storage_filename_def
  path_join_values_def path_join_def normalize_def mkdirSync_def write_file_def unlink_def abort_def
  appendField_def respond_def fileSize_def fieldSize_def Let_def

lemma example_now: "string_of_nat 1700000000000 = ''1700000000000''"
  by (simp add: string_of_nat.simps)

subsection \<open>The returned path\<close>

text \<open>
  Claim C6, as the code has it. For a successful upload whose \<open>vehicleId\<close> and \<open>type\<close>
  are strings made of plain path segments (no segment empty, \<open>.\<close> or \<open>..\<close>) and whose
  file name has no \<open>/\<close>, the answer is 200 with the path
  \<open>/documents/{vehicleId}/{type}/{timestampMillis}-{originalName}\<close>, where the timestamp
  is a non-empty run of decimal digits.
\<close>

theorem upload_path_form:
  assumes "upload env fs (Multipart parts) = (res, fs')" and "status res = 200"
    and "form_fields Map.empty parts ''vehicleId'' = Some (FStr vehicleId)"
    and "form_fields Map.empty parts ''type'' = Some (FStr type)"
    and "first_file parts = Some (name, originalName, content)"
    and "plain_path vehicleId" and "plain_path type" and "CHR ''/'' \<notin> set originalName"
  shows "res = respond 200 [(''message'', JStr ''File uploaded successfully''),
           (''path'', JStr (''/documents/'' @ vehicleId @ ''/'' @ type @ ''/'' @
                            string_of_nat (now env) @ ''-'' @ originalName))] \<and>
         set (string_of_nat (now env)) \<subseteq> set ''0123456789'' \<and> string_of_nat (now env) \<noteq> []"
proof -
  let ?req0 = "\<lparr>req_body = Map.empty, req_file = None\<rparr>"
  obtain err req fs1 where run: "multer_single env parts ?req0 fs = (err, req, fs1)"
    by (cases "multer_single env parts ?req0 fs") auto
  with assms(1) have res: "res = upload_callback err req"
    by (simp add: upload_def)
  from upload_callback_200 [of err req] assms(2) res obtain f v t where
    err: "err = None" and f: "req_file req = Some f"
    and v: "req_body req ''vehicleId'' = Some (FStr v)" and t: "req_body req ''type'' = Some (FStr t)"
    and out: "res = respond 200 [(''message'', JStr ''File uploaded successfully''),
                       (''path'', JStr (path_join [''/documents'', v, t, filename f]))]"
    by auto
  from run err have run': "multer_single env parts ?req0 fs = (None, req, fs1)" by simp
  from multer_single_body [OF run'] have "req_body req = form_fields Map.empty parts" by simp
  with v t assms(3,4) have vt: "v = vehicleId" "t = type" by simp_all
  from multer_single_file [OF run' _ f] assms(5)
  have fn: "filename f = storage_filename env originalName" by auto
  have "plain_segment (filename f)"
    unfolding fn storage_filename_def using assms(8) by (rule plain_generated_name)
  then have plain: "plain_path (filename f)"
    by (rule plain_path_segment)
  have "path_join [''/documents'', vehicleId, type, filename f] =
      ''/documents/'' @ vehicleId @ ''/'' @ type @ ''/'' @ filename f"
    using assms(6,7) plain by (rule path_join_documents)
  with out vt fn have "res = respond 200 [(''message'', JStr ''File uploaded successfully''),
           (''path'', JStr (''/documents/'' @ vehicleId @ ''/'' @ type @ ''/'' @
                            string_of_nat (now env) @ ''-'' @ originalName))]"
    by (simp add: storage_filename_def)
  then show ?thesis
    using string_of_nat_digits [of "now env"] string_of_nat_nonempty [of "now env"] by simp
qed

theorem upload_path_form_witness:
  "status (fst (upload example_env empty_disk example_upload)) = 200 \<and>
   plain_path ''v1'' \<and> plain_path ''insurance'' \<and> CHR ''/'' \<notin> set ''card.pdf'' \<and>
   fst (upload example_env empty_disk example_upload) =
     respond 200 [(''message'', JStr ''File uploaded successfully''),
                  (''path'', JStr ''/documents/v1/insurance/1700000000000-card.pdf'')]"
proof -
  let ?parts = "[Text ''vehicleId'' ''v1'', Text ''type'' ''insurance'',
     File ''file'' ''card.pdf'' [1, 2, 3]]"
  have run: "upload example_env empty_disk (Multipart ?parts) =
      (fst (upload example_env empty_disk (Multipart ?parts)),
       snd (upload example_env empty_disk (Multipart ?parts)))"
    by simp
  have ok: "status (fst (upload example_env empty_disk (Multipart ?parts))) = 200"
    by (simp add: upload_eval example_env_def empty_disk_def example_now)
  have v: "form_fields Map.empty ?parts ''vehicleId'' = Some (FStr ''v1'')"
    and t: "form_fields Map.empty ?parts ''type'' = Some (FStr ''insurance'')"
    and f: "first_file ?parts = Some (''file'', ''card.pdf'', [1, 2, 3])"
    by (simp_all add: appendField_def)
  have p: "plain_path ''v1''" "plain_path ''insurance''" "CHR ''/'' \<notin> set ''card.pdf''"
    by (simp_all add: plain_path_def plain_segment_def)
  from upload_path_form [OF run ok v t f p] ok p show ?thesis
    by (simp add: example_upload_def example_env_def example_now)
qed

text \<open>
  The claim as written fails, because \<^verbatim>\<open>path.join\<close> normalises what it joins: the
  upload with \<open>vehicleId = ".."\<close>, \<open>type = "insurance"\<close> and file \<open>card.pdf\<close>
  succeeds and is answered with the path \<open>/insurance/1700000000000-card.pdf\<close>, which is
  not \<open>/documents/../insurance/1700000000000-card.pdf\<close>.
\<close>

theorem upload_path_traversal_counterexample:
  "fst (upload example_env empty_disk
          (Multipart [Text ''vehicleId'' ''..'', Text ''type'' ''insurance'',
                      File ''file'' ''card.pdf'' [1, 2, 3]])) =
     respond 200 [(''message'', JStr ''File uploaded successfully''),
                  (''path'', JStr ''/insurance/1700000000000-card.pdf'')] \<and>
   ''/insurance/1700000000000-card.pdf'' \<noteq>
     ''/documents/'' @ ''..'' @ ''/'' @ ''insurance'' @ ''/'' @ string_of_nat (now example_env) @ ''-'' @ ''card.pdf''"
  by (simp add: upload_eval example_env_def empty_disk_def example_now)

subsection \<open>A file beyond the size limit\<close>

text \<open>
  Claim C7, at a failing input. A file of 10 MiB + 1 byte that is sent before the fields
  \<open>vehicleId\<close> and \<open>type\<close> is answered with 500 \<open>Upload error\<close>, the answer given
  to a failure of the disk, not with a 400. The destination is asked for when the file
  part begins, before any of its bytes are counted; it finds the fields missing, and its
  refusal is a plain \<^verbatim>\<open>Error\<close>, which the handler maps to 500.
\<close>

theorem upload_oversize_before_fields_is_500:
  "10 * 1024 * 1024 < length (replicate 10485761 (0 :: 8 word)) \<and>
   fst (upload example_env empty_disk
          (Multipart [File ''file'' ''big.bin'' (replicate 10485761 0),
                      Text ''vehicleId'' ''v1'', Text ''type'' ''insurance''])) =
     respond 500 [(''message'', JStr ''Upload error''), (''error'', JStr ''Missing vehicleId or type'')]"
  by (simp add: upload_eval example_env_def empty_disk_def)

text \<open>
  What does hold of a file beyond the limit: when the file part comes after text fields
  (each below the field limit) that give non-empty strings for \<open>vehicleId\<close> and
  \<open>type\<close>, the directory can be created and the file can be written and removed, the
  upload is answered with 400 \<open>File upload error\<close> / \<open>File too large\<close>, no file is on
  the disk that was not there before, and the same request with a failing directory
  creation is answered with 500.
\<close>

lemma upload_oversize_rejected:
  assumes "\<forall>p \<in> set pre. \<exists>name v. p = Text name v \<and> length v < fieldSize"
    and "form_fields Map.empty pre ''vehicleId'' = Some (FStr vehicleId)" and "vehicleId \<noteq> []"
    and "form_fields Map.empty pre ''type'' = Some (FStr type)" and "type \<noteq> []"
    and "originalName \<noteq> []"
    and "10 * 1024 * 1024 < length content"
    and "mkdir_throws env = None" and "write_fails env = None" and "\<not> unlink_fails env"
    and "upload env fs (Multipart (pre @ File ''file'' originalName content # post)) = (res, fs')"
  shows "res = respond 400 [(''message'', JStr ''File upload error''), (''error'', JStr ''File too large'')] \<and>
         files fs' \<subseteq>\<^sub>m files fs \<and>
         status (fst (upload (env\<lparr>mkdir_throws := Some m\<rparr>) fs
                        (Multipart (pre @ File ''file'' originalName content # post)))) = 500"
proof -
  let ?req0 = "\<lparr>req_body = Map.empty, req_file = None\<rparr>"
  let ?req1 = "?req0\<lparr>req_body := form_fields (req_body ?req0) pre\<rparr>"
  let ?rest = "File ''file'' originalName content # post"
  have split: "multer_single e (pre @ ?rest) ?req0 fs = multer_single e ?rest ?req1 fs" for e
    using assms(1) by (rule multer_single_fields)
  have big: "fileSize \<le> length content"
    using assms(7) by (simp add: fileSize_def)
  obtain dest fs1 where dest: "storage_destination env fs (req_body ?req1) = Inr (dest, fs1)"
    and fs1: "files fs1 = files fs"
    using assms(2-5,8) by (simp add: storage_destination_def path_join_values_def mkdirSync_def)
  let ?final = "path_join [dest, storage_filename env originalName]"
  have run: "multer_single env ?rest ?req1 fs =
      (Some (MulterError LIMIT_FILE_SIZE), ?req1,
       unlink env (write_file fs1 ?final (take fileSize content)) ?final)"
    using assms(6,9) big dest by (simp add: Let_def)
  from assms(11) split [of env] run
  have res: "res = upload_callback (Some (MulterError LIMIT_FILE_SIZE)) ?req1"
    and fs': "fs' = unlink env (write_file fs1 ?final (take fileSize content)) ?final"
    by (simp_all add: upload_def)
  have r: "res = respond 400 [(''message'', JStr ''File upload error''), (''error'', JStr ''File too large'')]"
    using res by (simp add: upload_callback_def)
  have "files fs' = (files fs)(?final := None)"
    using fs' fs1 assms(10) by (simp add: unlink_def write_file_def)
  then have f: "files fs' \<subseteq>\<^sub>m files fs"
    by (simp add: map_le_def)
  let ?env' = "env\<lparr>mkdir_throws := Some m\<rparr>"
  have "storage_destination ?env' fs (req_body ?req1) = Inl (FsError m)"
    using assms(2-5) by (simp add: storage_destination_def path_join_values_def mkdirSync_def)
  then have "multer_single ?env' ?rest ?req1 fs = (Some (FsError m), ?req1, fs)"
    using assms(6) by (simp add: abort_def)
  with split [of ?env']
  have io: "status (fst (upload ?env' fs (Multipart (pre @ ?rest)))) = 500"
    by (simp add: upload_def upload_callback_def respond_def)
  from r f io show ?thesis by simp
qed


lemma upload_oversize_rejected_example:
  "form_fields Map.empty [Text ''vehicleId'' ''v1'', Text ''type'' ''insurance''] ''vehicleId'' =
     Some (FStr ''v1'') \<and>
   form_fields Map.empty [Text ''vehicleId'' ''v1'', Text ''type'' ''insurance''] ''type'' =
     Some (FStr ''insurance'') \<and>
   10 * 1024 * 1024 < length (replicate 10485761 (0 :: 8 word)) \<and>
   mkdir_throws example_env = None \<and> write_fails example_env = None \<and>
   \<not> unlink_fails example_env \<and>
   status (fst (upload example_env empty_disk
     (Multipart ([Text ''vehicleId'' ''v1'', Text ''type'' ''insurance''] @
        File ''file'' ''big.bin'' (replicate 10485761 0) # [])))) = 400 \<and>
   files (snd (upload example_env empty_disk
     (Multipart ([Text ''vehicleId'' ''v1'', Text ''type'' ''insurance''] @
        File ''file'' ''big.bin'' (replicate 10485761 0) # [])))) = Map.empty"
proof -
  let ?pre = "[Text ''vehicleId'' ''v1'', Text ''type'' ''insurance'']"
  let ?big = "replicate 10485761 (0 :: 8 word)"
  let ?run = "upload example_env empty_disk (Multipart (?pre @ File ''file'' ''big.bin'' ?big # []))"
  have h1: "\<forall>p \<in> set ?pre. \<exists>name v. p = Text name v \<and> length v < fieldSize"
    by (simp add: fieldSize_def)
  have h2: "form_fields Map.empty ?pre ''vehicleId'' = Some (FStr ''v1'')"
    and h4: "form_fields Map.empty ?pre ''type'' = Some (FStr ''insurance'')"
    by (simp_all add: appendField_def)
  have h3: "''v1'' \<noteq> []" and h5: "''insurance'' \<noteq> []" and h6: "''big.bin'' \<noteq> []"
    by simp_all
  have h7: "10 * 1024 * 1024 < length ?big"
    by simp
  have h8: "mkdir_throws example_env = None" and h9: "write_fails example_env = None"
    and h10: "\<not> unlink_fails example_env"
    by (simp_all add: example_env_def)
  have h11: "?run = (fst ?run, snd ?run)"
    by simp
  from upload_oversize_rejected [OF h1 h2 h3 h4 h5 h6 h7 h8 h9 h10 h11]
  have st: "status (fst ?run) = 400" and le: "files (snd ?run) \<subseteq>\<^sub>m files empty_disk"
    by (simp_all add: respond_def)
  have "files (snd ?run) = Map.empty"
  proof (rule map_le_antisym)
    show "files (snd ?run) \<subseteq>\<^sub>m Map.empty"
      using le by (simp add: empty_disk_def)
    show "Map.empty \<subseteq>\<^sub>m files (snd ?run)"
      by simp
  qed
  with st h2 h4 h7 h8 h9 h10 show ?thesis
    by simp
qed

subsection \<open>A missing field\<close>

text \<open>
  Claim C1, at a failing input. The upload with the field \<open>type\<close>, the file
  \<open>card.pdf\<close> and no \<open>vehicleId\<close> persists nothing, but is answered with 500
  \<open>Upload error\<close>, not with 400: the refusal of \<^verbatim>\<open>storage.destination\<close> is a plain
  \<^verbatim>\<open>Error\<close>, which the handler maps to 500, and its own 400 branch for missing
  fields, which comes after the file has been stored, is not reached.
\<close>

theorem upload_missing_vehicleId_is_500:
  "upload example_env empty_disk
     (Multipart [Text ''type'' ''insurance'', File ''file'' ''card.pdf'' [1, 2, 3]]) =
   (respond 500 [(''message'', JStr ''Upload error''), (''error'', JStr ''Missing vehicleId or type'')],
    empty_disk)"
  by (simp add: upload_eval example_env_def empty_disk_def)

text \<open>
  What does hold of an upload in which \<open>vehicleId\<close> or \<open>type\<close> is missing or empty:
  nothing is written to the disk and the answer is an error, 400 or 500.
\<close>

lemma form_truthy_appendField:
  "form_truthy (b key) \<Longrightarrow> form_truthy (appendField b name v key)"
  by (cases "b name" rule: form_truthy.cases) (auto simp: appendField_def)

lemma form_truthy_form_fields:
  "form_truthy (b key) \<Longrightarrow> form_truthy (form_fields b parts key)"
proof (induction parts arbitrary: b)
  case Nil
  then show ?case by simp
next
  case (Cons p parts)
  then show ?case
    by (cases p) (simp_all add: form_truthy_appendField)
qed

lemma multer_single_missing_field:
  assumes "\<not> form_truthy (form_fields (req_body req) parts ''vehicleId'') \<or>
           \<not> form_truthy (form_fields (req_body req) parts ''type'')"
    and "req_file req = None"
  shows "snd (snd (multer_single env parts req fs)) = fs \<and>
         req_file (fst (snd (multer_single env parts req fs))) = None"
  using assms
proof (induction parts arbitrary: req)
  case Nil
  then show ?case by simp
next
  case (Cons p parts)
  show ?case
  proof (cases p)
    case (Text name v)
    with Cons.IH [of "req\<lparr>req_body := appendField (req_body req) name v\<rparr>"] Cons.prems
    show ?thesis by (simp add: abort_def)
  next
    case (File name original content)
    from Cons.prems(1) File
    have "\<not> form_truthy (req_body req ''vehicleId'') \<or> \<not> form_truthy (req_body req ''type'')"
      using form_truthy_form_fields [of "req_body req" _ parts] by auto
    then have "storage_destination env fs (req_body req) = Inl (Error ''Missing vehicleId or type'')"
      by (auto simp: storage_destination_def)
    with Cons.IH [of req] Cons.prems File show ?thesis
      by (simp add: abort_def)
  qed
qed

lemma upload_missing_field_persists_nothing:
  assumes "\<not> form_truthy (form_fields Map.empty parts ''vehicleId'') \<or>
           \<not> form_truthy (form_fields Map.empty parts ''type'')"
  shows "snd (upload env fs (Multipart parts)) = fs \<and>
         status (fst (upload env fs (Multipart parts))) \<in> {400, 500}"
proof -
  let ?req0 = "\<lparr>req_body = Map.empty, req_file = None\<rparr>"
  obtain err req fs' where run: "multer_single env parts ?req0 fs = (err, req, fs')"
    by (cases "multer_single env parts ?req0 fs") auto
  from multer_single_missing_field [of ?req0 parts env fs] assms run
  have "fs' = fs" and "req_file req = None"
    by simp_all
  with run show ?thesis
    by (auto simp: upload_def upload_callback_def respond_def split: option.splits)
qed

end
